theory Spec2Isabelle
  imports Complex_Main
begin

section \<open>Conventions of the embedding\<close>

text \<open>
  The Python sources under \<open>src/api/app\<close> are embedded function by function.
  \<^item> A Python \<open>float\<close> is a \<^typ>\<open>real\<close>, and comparisons of floats are comparisons of
    reals. The arithmetic of the safety layer and of the anomaly detector is not that of
    the reals: every operation on floats there (\<open>+\<close>, \<open>-\<close>, \<open>*\<close>, \<open>/\<close>, \<open>** 2\<close>, \<open>math.sqrt\<close>,
    \<open>sum\<close>, and the reading of a decimal literal that is not a binary fraction) is a field of
    a record \<open>float_arith\<close> passed to every function, so that what is proved holds whatever
    the rounding of these operations is. \<open>fp_exact\<close> is the arithmetic of the reals, used to
    evaluate runs. The decision engine only subtracts a reading from a threshold and
    compares; it is read over the reals.
  \<^item> \<open>datetime.utcnow()\<close> and \<open>uuid.uuid4()\<close> read the outside world. The world is an
    explicit record \<open>env\<close>: the sequence of values the clock will return (in microseconds,
    the resolution of \<open>datetime\<close>) and the sequence of identifiers that will be drawn,
    each with a counter of how many have been consumed. Nothing is assumed about either
    sequence.
  \<^item> The free text of the decision engine's recommendations (title, description,
    reasoning, estimated effect) and the evidence dictionary, message and recommendation
    text of an anomaly alert (built with \<open>round\<close> and f-strings) are not part of the model.
    Every other field is. In the safety layer an f-string is kept as its template together
    with the values formatted into it.
  \<^item> An exception is a value: \<open>py_error + 'a\<close>.
\<close>

datatype py_error = ValueError | KeyError | IndexError | ZeroDivisionError

record env =
  clock :: "nat \<Rightarrow> int"
  clock_reads :: nat
  uuids :: "nat \<Rightarrow> string"
  uuid_draws :: nat

definition utcnow :: "env \<Rightarrow> int \<times> env" where
  "utcnow e = (clock e (clock_reads e), e\<lparr>clock_reads := Suc (clock_reads e)\<rparr>)"

definition uuid4 :: "env \<Rightarrow> string \<times> env" where
  "uuid4 e = (uuids e (uuid_draws e), e\<lparr>uuid_draws := Suc (uuid_draws e)\<rparr>)"

text \<open>
  A concrete world for evaluating the model: the clock advances by one second at every
  reading, and the \<open>n\<close>-th identifier is \<open>uuid-\<close> followed by \<open>n\<close> copies of \<open>u\<close>.
\<close>

definition env0 :: env where
  "env0 = \<lparr>clock = (\<lambda>n. 1000000 * int n), clock_reads = 0,
            uuids = (\<lambda>n. ''uuid-'' @ replicate n (CHR ''u'')), uuid_draws = 0\<rparr>"

text \<open>Python's \<open>int(x)\<close> on a float truncates towards zero.\<close>

definition py_int :: "real \<Rightarrow> int" where
  "py_int x = (if 0 \<le> x then \<lfloor>x\<rfloor> else \<lceil>x\<rceil>)"

text \<open>
  The operations on floats. \<open>flit\<close> reads a decimal literal, \<open>fpow2\<close> is \<open>x ** 2\<close>, \<open>fsum\<close>
  is the builtin \<open>sum\<close> on a list of floats.
\<close>

record float_arith =
  flit :: "real \<Rightarrow> real"
  fadd :: "real \<Rightarrow> real \<Rightarrow> real"
  fsub :: "real \<Rightarrow> real \<Rightarrow> real"
  fmul :: "real \<Rightarrow> real \<Rightarrow> real"
  fdiv :: "real \<Rightarrow> real \<Rightarrow> real"
  fpow2 :: "real \<Rightarrow> real"
  fsqrt :: "real \<Rightarrow> real"
  fsum :: "real list \<Rightarrow> real"

definition fp_exact :: float_arith where
  "fp_exact = \<lparr>flit = (\<lambda>x. x), fadd = (+), fsub = (-), fmul = (*), fdiv = (/),
               fpow2 = (\<lambda>x. x ^ 2), fsqrt = sqrt, fsum = sum_list\<rparr>"

text \<open>
  Division of floats by a nonzero divisor. A zero dividend gives zero exactly, whatever
  the divisor; every other quotient is the one the arithmetic delivers.
\<close>

definition fdiv0 :: "float_arith \<Rightarrow> real \<Rightarrow> real \<Rightarrow> real" where
  "fdiv0 fp x y = (if x = 0 then 0 else fdiv fp x y)"

section \<open>models.py\<close>

record SettlementState =
  o2_pct :: real
  co2_ppm :: real
  pressure_kpa :: real
  temp_c :: real
  humidity_pct :: real
  solar_kw :: real
  battery_kwh :: real
  load_kw :: real
  crop_health_index :: real
  radiation_msv_hr :: real
  strain_index :: real

text \<open>The defaults of the dataclass \<open>SettlementState\<close>.\<close>

definition SettlementState_init :: SettlementState where
  "SettlementState_init =
     \<lparr>o2_pct = 21.0, co2_ppm = 400.0, pressure_kpa = 101.325, temp_c = 20.0,
      humidity_pct = 50.0, solar_kw = 1000.0, battery_kwh = 500.0, load_kw = 800.0,
      crop_health_index = 85.0, radiation_msv_hr = 0.02, strain_index = 0.5\<rparr>"

datatype AlertSeverity = INFO | WARNING | CRITICAL

section \<open>decision\_engine.py\<close>

subsection \<open>Thresholds\<close>

definition o2_min :: real where "o2_min = 20.0"
definition o2_optimal_min :: real where "o2_optimal_min = 20.5"
definition o2_optimal_max :: real where "o2_optimal_max = 21.5"
definition co2_max :: real where "co2_max = 500.0"
definition co2_warning :: real where "co2_warning = 450.0"
definition pressure_min :: real where "pressure_min = 95.0"
definition pressure_optimal_min :: real where "pressure_optimal_min = 98.0"
definition pressure_optimal_max :: real where "pressure_optimal_max = 103.0"
definition temp_min :: real where "temp_min = 18.0"
definition temp_max :: real where "temp_max = 22.0"
definition humidity_min :: real where "humidity_min = 40.0"
definition humidity_max :: real where "humidity_max = 60.0"
definition crop_health_min :: real where "crop_health_min = 75.0"
definition crop_health_optimal :: real where "crop_health_optimal = 85.0"

definition battery_min :: real where "battery_min = 30.0"
definition battery_warning :: real where "battery_warning = 50.0"
definition battery_optimal_min :: real where "battery_optimal_min = 60.0"
definition battery_optimal_max :: real where "battery_optimal_max = 90.0"
definition solar_min :: real where "solar_min = 500.0"
definition load_max :: real where "load_max = 900.0"
definition load_optimal_max :: real where "load_optimal_max = 850.0"
definition energy_reserve_min :: real where "energy_reserve_min = 0.2"

subsection \<open>The recommendation of the decision engine\<close>

text \<open>
  The dataclass \<open>decision_engine.Recommendation\<close>; its \<open>priority\<close> is an \<open>int\<close>.
  The fields \<open>title\<close>, \<open>description\<close>, \<open>reasoning\<close> and \<open>estimated_effect\<close> are free text.
\<close>

record Recommendation =
  rec_id :: string
  priority :: int
  category :: string
  action :: string
  current_value :: real
  threshold_value :: real
  impact :: string
  confidence :: real

subsection \<open>calculate\_priority\<close>

text \<open>The dictionary \<open>impact_multiplier\<close>; \<open>.get(impact_level, 1.0)\<close> supplies the default.\<close>

definition impact_multiplier :: "string \<rightharpoonup> real" where
  "impact_multiplier =
     [''critical'' \<mapsto> 2, ''high'' \<mapsto> 1.5, ''medium'' \<mapsto> 1.0, ''low'' \<mapsto> 0.5]"

definition calculate_priority :: "real \<Rightarrow> string \<Rightarrow> bool \<Rightarrow> int" where
  "calculate_priority deviation_from_threshold impact_level is_critical =
     (let base_priority = (5::int);
          base_priority =
            (if \<bar>deviation_from_threshold\<bar> > 20 then base_priority + 3
             else if \<bar>deviation_from_threshold\<bar> > 10 then base_priority + 2
             else if \<bar>deviation_from_threshold\<bar> > 5 then base_priority + 1
             else base_priority);
          base_priority =
            py_int (real_of_int base_priority *
                    (case impact_multiplier impact_level of Some m \<Rightarrow> m | None \<Rightarrow> 1.0));
          base_priority = (if is_critical then base_priority + 2 else base_priority)
      in min 10 (max 1 base_priority))"

subsection \<open>The analyzers\<close>

text \<open>
  Each analyzer returns \<open>None\<close> or one recommendation; the identifier is the one
  \<open>uuid4\<close> returns at that point, passed in as \<open>rid\<close>.
\<close>

definition mk_rec ::
  "string \<Rightarrow> int \<Rightarrow> string \<Rightarrow> string \<Rightarrow> real \<Rightarrow> real \<Rightarrow> string \<Rightarrow> real \<Rightarrow> Recommendation" where
  "mk_rec rid p cat act cur thr imp conf =
     \<lparr>rec_id = rid, priority = p, category = cat, action = act, current_value = cur,
      threshold_value = thr, impact = imp, confidence = conf\<rparr>"

definition analyze_oxygen :: "SettlementState \<Rightarrow> string \<Rightarrow> Recommendation option" where
  "analyze_oxygen state rid =
     (let o2 = o2_pct state; threshold_min = o2_min; threshold_optimal_min = o2_optimal_min in
      if o2 < threshold_min then
        (let deviation = threshold_min - o2 in
         Some (mk_rec rid (calculate_priority deviation ''critical'' True) ''life_support''
                 ''INCREASE_O2_GENERATION'' o2 threshold_min ''critical'' 0.95))
      else if o2 < threshold_optimal_min then
        (let deviation = threshold_optimal_min - o2 in
         Some (mk_rec rid (calculate_priority deviation ''high'' False) ''life_support''
                 ''INCREASE_O2_GENERATION'' o2 threshold_optimal_min ''high'' 0.85))
      else if o2 > o2_optimal_max then
        (let deviation = o2 - o2_optimal_max in
         Some (mk_rec rid (calculate_priority deviation ''medium'' False) ''life_support''
                 ''REDUCE_O2_GENERATION'' o2 o2_optimal_max ''medium'' 0.80))
      else None)"

definition analyze_co2 :: "SettlementState \<Rightarrow> string \<Rightarrow> Recommendation option" where
  "analyze_co2 state rid =
     (let co2 = co2_ppm state; threshold_max = co2_max; threshold_warning = co2_warning in
      if co2 > threshold_max then
        (let deviation = co2 - threshold_max in
         Some (mk_rec rid (calculate_priority deviation ''critical'' True) ''life_support''
                 ''INCREASE_CO2_SCRUBBING'' co2 threshold_max ''critical'' 0.95))
      else if co2 > threshold_warning then
        (let deviation = co2 - threshold_warning in
         Some (mk_rec rid (calculate_priority deviation ''high'' False) ''life_support''
                 ''INCREASE_CO2_SCRUBBING'' co2 threshold_warning ''high'' 0.85))
      else None)"

definition analyze_pressure :: "SettlementState \<Rightarrow> string \<Rightarrow> Recommendation option" where
  "analyze_pressure state rid =
     (let pressure = pressure_kpa state; threshold_min = pressure_min;
          threshold_optimal_min = pressure_optimal_min in
      if pressure < threshold_min then
        (let deviation = threshold_min - pressure in
         Some (mk_rec rid (calculate_priority deviation ''critical'' True) ''life_support''
                 ''INCREASE_PRESSURE'' pressure threshold_min ''critical'' 0.95))
      else if pressure < threshold_optimal_min then
        (let deviation = threshold_optimal_min - pressure in
         Some (mk_rec rid (calculate_priority deviation ''high'' False) ''life_support''
                 ''INCREASE_PRESSURE'' pressure threshold_optimal_min ''high'' 0.85))
      else if pressure > pressure_optimal_max then
        (let deviation = pressure - pressure_optimal_max in
         Some (mk_rec rid (calculate_priority deviation ''medium'' False) ''life_support''
                 ''REDUCE_PRESSURE'' pressure pressure_optimal_max ''medium'' 0.80))
      else None)"

definition analyze_temperature :: "SettlementState \<Rightarrow> string \<Rightarrow> Recommendation option" where
  "analyze_temperature state rid =
     (let temp = temp_c state; threshold_min = temp_min; threshold_max = temp_max in
      if temp < threshold_min then
        (let deviation = threshold_min - temp in
         Some (mk_rec rid (calculate_priority deviation ''high'' False) ''life_support''
                 ''INCREASE_TEMPERATURE'' temp threshold_min ''high'' 0.85))
      else if temp > threshold_max then
        (let deviation = temp - threshold_max in
         Some (mk_rec rid (calculate_priority deviation ''high'' False) ''life_support''
                 ''DECREASE_TEMPERATURE'' temp threshold_max ''high'' 0.85))
      else None)"

definition analyze_humidity :: "SettlementState \<Rightarrow> string \<Rightarrow> Recommendation option" where
  "analyze_humidity state rid =
     (let humidity = humidity_pct state; threshold_min = humidity_min;
          threshold_max = humidity_max in
      if humidity < threshold_min then
        (let deviation = threshold_min - humidity in
         Some (mk_rec rid (calculate_priority deviation ''medium'' False) ''life_support''
                 ''INCREASE_HUMIDITY'' humidity threshold_min ''medium'' 0.80))
      else if humidity > threshold_max then
        (let deviation = humidity - threshold_max in
         Some (mk_rec rid (calculate_priority deviation ''medium'' False) ''life_support''
                 ''DECREASE_HUMIDITY'' humidity threshold_max ''medium'' 0.80))
      else None)"

definition analyze_crop_health :: "SettlementState \<Rightarrow> string \<Rightarrow> Recommendation option" where
  "analyze_crop_health state rid =
     (let crop_health = crop_health_index state; threshold_min = crop_health_min;
          threshold_optimal = crop_health_optimal in
      if crop_health < threshold_min then
        (let deviation = threshold_min - crop_health in
         Some (mk_rec rid (calculate_priority deviation ''high'' False) ''life_support''
                 ''IMPROVE_CROP_HEALTH'' crop_health threshold_min ''high'' 0.75))
      else if crop_health < threshold_optimal then
        (let deviation = threshold_optimal - crop_health in
         Some (mk_rec rid (calculate_priority deviation ''medium'' False) ''life_support''
                 ''OPTIMIZE_CROP_HEALTH'' crop_health threshold_optimal ''medium'' 0.70))
      else None)"

definition analyze_battery :: "SettlementState \<Rightarrow> string \<Rightarrow> Recommendation option" where
  "analyze_battery state rid =
     (let battery = battery_kwh state; threshold_min = battery_min;
          threshold_warning = battery_warning; threshold_optimal_min = battery_optimal_min in
      if battery < threshold_min then
        (let deviation = threshold_min - battery in
         Some (mk_rec rid (calculate_priority deviation ''critical'' True) ''energy_dispatch''
                 ''PRIORITIZE_CHARGING'' battery threshold_min ''critical'' 0.90))
      else if battery < threshold_warning then
        (let deviation = threshold_warning - battery in
         Some (mk_rec rid (calculate_priority deviation ''high'' False) ''energy_dispatch''
                 ''INCREASE_CHARGING'' battery threshold_warning ''high'' 0.85))
      else if battery < threshold_optimal_min then
        (let deviation = threshold_optimal_min - battery in
         Some (mk_rec rid (calculate_priority deviation ''medium'' False) ''energy_dispatch''
                 ''OPTIMIZE_CHARGING'' battery threshold_optimal_min ''medium'' 0.80))
      else if battery > battery_optimal_max then
        (let deviation = battery - battery_optimal_max in
         Some (mk_rec rid (calculate_priority deviation ''low'' False) ''energy_dispatch''
                 ''INCREASE_LOAD'' battery battery_optimal_max ''low'' 0.75))
      else None)"

definition analyze_solar :: "SettlementState \<Rightarrow> string \<Rightarrow> Recommendation option" where
  "analyze_solar state rid =
     (let solar = solar_kw state; threshold_min = solar_min in
      if solar < threshold_min then
        (let deviation = threshold_min - solar in
         Some (mk_rec rid (calculate_priority deviation ''high'' False) ''energy_dispatch''
                 ''REDUCE_NON_ESSENTIAL_LOAD'' solar threshold_min ''high'' 0.85))
      else None)"

definition analyze_load :: "SettlementState \<Rightarrow> string \<Rightarrow> Recommendation option" where
  "analyze_load state rid =
     (let load = load_kw state; threshold_max = load_max;
          threshold_optimal_max = load_optimal_max in
      if load > threshold_max then
        (let deviation = load - threshold_max in
         Some (mk_rec rid (calculate_priority deviation ''critical'' True) ''energy_dispatch''
                 ''REDUCE_LOAD'' load threshold_max ''critical'' 0.95))
      else if load > threshold_optimal_max then
        (let deviation = load - threshold_optimal_max in
         Some (mk_rec rid (calculate_priority deviation ''high'' False) ''energy_dispatch''
                 ''OPTIMIZE_LOAD'' load threshold_optimal_max ''high'' 0.85))
      else None)"

definition analyze_energy_balance :: "SettlementState \<Rightarrow> string \<Rightarrow> Recommendation option" where
  "analyze_energy_balance state rid =
     (let solar = solar_kw state; load = load_kw state; battery = battery_kwh state;
          battery_capacity = 500.0;
          battery_pct = (battery / battery_capacity) * 100.0;
          net_power = solar - load;
          reserve_ratio = battery_pct / 100.0 in
      if net_power < 0 \<and> reserve_ratio < energy_reserve_min then
        Some (mk_rec rid (calculate_priority \<bar>net_power\<bar> ''critical'' True) ''energy_dispatch''
                ''EMERGENCY_LOAD_SHEDDING'' reserve_ratio energy_reserve_min ''critical'' 0.95)
      else if net_power < 0 then
        Some (mk_rec rid (calculate_priority \<bar>net_power\<bar> ''high'' False) ''energy_dispatch''
                ''REDUCE_LOAD_OR_INCREASE_GENERATION'' net_power 0.0 ''high'' 0.85)
      else if net_power > 0 \<and> battery_pct < 90.0 then
        Some (mk_rec rid (calculate_priority net_power ''medium'' False) ''energy_dispatch''
                ''CHARGE_BATTERY'' battery_pct 90.0 ''medium'' 0.80)
      else None)"

subsection \<open>generate\_recommendations\<close>

text \<open>
  \<open>x_rec = self._analyze_x(state); if x_rec: recommendations.append(x_rec)\<close>.
  An identifier is consumed from the world only when the analyzer builds a recommendation.
\<close>

definition run_analyzer ::
  "(string \<Rightarrow> Recommendation option) \<Rightarrow> Recommendation list \<times> env \<Rightarrow> Recommendation list \<times> env" where
  "run_analyzer f = (\<lambda>(recommendations, e).
     case f (fst (uuid4 e)) of
       None \<Rightarrow> (recommendations, e)
     | Some r \<Rightarrow> (recommendations @ [r], snd (uuid4 e)))"

definition analyze_life_support :: "SettlementState \<Rightarrow> env \<Rightarrow> Recommendation list \<times> env" where
  "analyze_life_support state e =
     (run_analyzer (analyze_crop_health state)
       (run_analyzer (analyze_humidity state)
         (run_analyzer (analyze_temperature state)
           (run_analyzer (analyze_pressure state)
             (run_analyzer (analyze_co2 state)
               (run_analyzer (analyze_oxygen state) ([], e)))))))"

definition analyze_energy_dispatch :: "SettlementState \<Rightarrow> env \<Rightarrow> Recommendation list \<times> env" where
  "analyze_energy_dispatch state e =
     (run_analyzer (analyze_energy_balance state)
       (run_analyzer (analyze_load state)
         (run_analyzer (analyze_solar state)
           (run_analyzer (analyze_battery state) ([], e)))))"

text \<open>
  \<open>recommendations.sort(key=lambda x: x.priority, reverse=True)\<close>: Python's sort is
  stable, and with \<open>reverse=True\<close> equal keys keep their original order; so does the
  stable insertion sort on the negated key.
\<close>

definition generate_recommendations :: "SettlementState \<Rightarrow> env \<Rightarrow> Recommendation list \<times> env" where
  "generate_recommendations state e =
     (let (ls, e1) = analyze_life_support state e;
          (en, e2) = analyze_energy_dispatch state e1;
          recommendations = ls @ en
      in (sort_key (\<lambda>x. - priority x) recommendations, e2))"

section \<open>anomaly\_detector.py\<close>

definition Z_SCORE_THRESHOLD :: real where "Z_SCORE_THRESHOLD = 2.5"
definition Z_SCORE_CRITICAL :: real where "Z_SCORE_CRITICAL = 3.5"
definition EWMA_ALPHA :: real where "EWMA_ALPHA = 0.3"

text \<open>
  \<open>MetricStatistics\<close>. The initial \<open>min_value = float('inf')\<close> and
  \<open>max_value = float('-inf')\<close> are the value \<open>None\<close> of an option: no sample seen yet.
\<close>

record MetricStatistics =
  mean :: real
  std_dev :: real
  ewma :: real
  min_value :: "real option"
  max_value :: "real option"
  sample_count :: int
  last_value :: real

definition MetricStatistics_init :: MetricStatistics where
  "MetricStatistics_init =
     \<lparr>mean = 0.0, std_dev = 0.0, ewma = 0.0, min_value = None, max_value = None,
      sample_count = 0, last_value = 0.0\<rparr>"

text \<open>\<open>AnomalyAlert\<close>, without its free-text fields (evidence, message, recommendation).\<close>

record AnomalyAlert =
  aa_id :: string
  aa_timestamp :: int
  aa_metric :: string
  aa_severity :: AlertSeverity
  aa_current_value :: real
  aa_z_score :: real
  aa_confidence :: real

record AnomalyDetector =
  pressure_stats :: MetricStatistics
  radiation_stats :: MetricStatistics
  battery_stats :: MetricStatistics
  history :: "string \<rightharpoonup> real list"
  max_history_size :: nat

definition AnomalyDetector_init :: AnomalyDetector where
  "AnomalyDetector_init =
     \<lparr>pressure_stats = MetricStatistics_init, radiation_stats = MetricStatistics_init,
      battery_stats = MetricStatistics_init,
      history = [''pressure'' \<mapsto> [], ''radiation'' \<mapsto> [], ''battery'' \<mapsto> []],
      max_history_size = 100\<rparr>"

definition get_stats :: "AnomalyDetector \<Rightarrow> string \<Rightarrow> py_error + MetricStatistics" where
  "get_stats d metric_name =
     (if metric_name = ''pressure'' then Inr (pressure_stats d)
      else if metric_name = ''radiation'' then Inr (radiation_stats d)
      else if metric_name = ''battery'' then Inr (battery_stats d)
      else Inl ValueError)"

text \<open>
  \<open>stats\<close> is a reference to one of the three statistics objects of the detector;
  assigning to its fields updates that object. \<open>put_stats\<close> writes the updated record back.
\<close>

definition put_stats :: "string \<Rightarrow> MetricStatistics \<Rightarrow> AnomalyDetector \<Rightarrow> AnomalyDetector" where
  "put_stats metric_name stats d =
     (if metric_name = ''pressure'' then d\<lparr>pressure_stats := stats\<rparr>
      else if metric_name = ''radiation'' then d\<lparr>radiation_stats := stats\<rparr>
      else if metric_name = ''battery'' then d\<lparr>battery_stats := stats\<rparr>
      else d)"

definition py_min :: "real option \<Rightarrow> real \<Rightarrow> real option" where
  "py_min m v = (case m of None \<Rightarrow> Some v | Some x \<Rightarrow> Some (min x v))"

definition py_max :: "real option \<Rightarrow> real \<Rightarrow> real option" where
  "py_max m v = (case m of None \<Rightarrow> Some v | Some x \<Rightarrow> Some (max x v))"

definition update_metric ::
  "float_arith \<Rightarrow> string \<Rightarrow> real \<Rightarrow> AnomalyDetector \<Rightarrow> py_error + AnomalyDetector" where
  "update_metric fp metric_name v d =
     (case get_stats d metric_name of
        Inl err \<Rightarrow> Inl err
      | Inr stats \<Rightarrow>
          (let hist =
                 (case history d metric_name of
                    None \<Rightarrow> history d
                  | Some xs \<Rightarrow>
                      (let ys = xs @ [v] in
                       (history d)(metric_name \<mapsto>
                          (if length ys > max_history_size d then tl ys else ys))));
               stats = stats\<lparr>min_value := py_min (min_value stats) v\<rparr>;
               stats = stats\<lparr>max_value := py_max (max_value stats) v\<rparr>;
               stats = stats\<lparr>last_value := v\<rparr>;
               stats = stats\<lparr>sample_count := sample_count stats + 1\<rparr>;
               stats =
                 (if sample_count stats = 1 then stats\<lparr>ewma := v\<rparr>
                  else stats\<lparr>ewma :=
                         fadd fp (fmul fp (flit fp EWMA_ALPHA) v)
                           (fmul fp (fsub fp 1 (flit fp EWMA_ALPHA)) (ewma stats))\<rparr>)
           in case hist metric_name of
                None \<Rightarrow> Inl KeyError
              | Some values \<Rightarrow>
                  (if length values \<ge> 2 then
                     (let stats = stats\<lparr>mean := fdiv0 fp (fsum fp values) (real (length values))\<rparr>;
                          variance =
                            fdiv0 fp (fsum fp (map (\<lambda>x. fpow2 fp (fsub fp x (mean stats))) values))
                              (real (length values));
                          stats = stats\<lparr>std_dev := (if variance > 0 then fsqrt fp variance else 0.0)\<rparr>
                      in Inr (put_stats metric_name stats (d\<lparr>history := hist\<rparr>)))
                   else Inr (put_stats metric_name stats (d\<lparr>history := hist\<rparr>)))))"

text \<open>
  The three detectors. A detector that builds an alert draws an identifier and then reads
  the clock (\<open>id=str(uuid.uuid4()), timestamp=datetime.utcnow()\<close>); one that returns
  \<open>None\<close> touches nothing.
\<close>

definition mk_anomaly ::
  "string \<Rightarrow> AlertSeverity \<Rightarrow> real \<Rightarrow> real \<Rightarrow> real \<Rightarrow> env \<Rightarrow> AnomalyAlert option \<times> env" where
  "mk_anomaly metric sev v z conf e =
     (let (i, e1) = uuid4 e; (now, e2) = utcnow e1 in
      (Some \<lparr>aa_id = i, aa_timestamp = now, aa_metric = metric, aa_severity = sev,
             aa_current_value = v, aa_z_score = z, aa_confidence = conf\<rparr>, e2))"

definition detect_pressure_anomaly ::
  "float_arith \<Rightarrow> MetricStatistics \<Rightarrow> real \<Rightarrow> env \<Rightarrow> AnomalyAlert option \<times> env" where
  "detect_pressure_anomaly fp stats v e =
     (if sample_count stats < 10 then (None, e)
      else if std_dev stats = 0 then (None, e)
      else
        (let z_score =
               (if std_dev stats > 0 then fdiv0 fp (fsub fp v (mean stats)) (std_dev stats)
                else 0.0);
             abs_z_score = \<bar>z_score\<bar> in
         if abs_z_score \<ge> Z_SCORE_CRITICAL then
           mk_anomaly ''pressure'' CRITICAL v z_score
             (min (flit fp 0.99)
                (fadd fp (flit fp 0.7)
                   (fmul fp (fsub fp abs_z_score Z_SCORE_CRITICAL) (flit fp 0.1)))) e
         else if abs_z_score \<ge> Z_SCORE_THRESHOLD then
           mk_anomaly ''pressure'' WARNING v z_score
             (min (flit fp 0.95)
                (fadd fp 0.5
                   (fmul fp (fsub fp abs_z_score Z_SCORE_THRESHOLD) (flit fp 0.15)))) e
         else (None, e)))"

definition detect_radiation_anomaly ::
  "float_arith \<Rightarrow> MetricStatistics \<Rightarrow> real \<Rightarrow> env \<Rightarrow> AnomalyAlert option \<times> env" where
  "detect_radiation_anomaly fp stats v e =
     (if sample_count stats < 10 then (None, e)
      else if std_dev stats = 0 then (None, e)
      else
        (let z_score =
               (if std_dev stats > 0 then fdiv0 fp (fsub fp v (mean stats)) (std_dev stats)
                else 0.0);
             abs_z_score = \<bar>z_score\<bar> in
         if abs_z_score \<ge> Z_SCORE_CRITICAL \<and> z_score > 0 then
           mk_anomaly ''radiation'' CRITICAL v z_score
             (min (flit fp 0.99)
                (fadd fp (flit fp 0.7)
                   (fmul fp (fsub fp abs_z_score Z_SCORE_CRITICAL) (flit fp 0.1)))) e
         else if abs_z_score \<ge> Z_SCORE_THRESHOLD \<and> z_score > 0 then
           mk_anomaly ''radiation'' WARNING v z_score
             (min (flit fp 0.95)
                (fadd fp 0.5
                   (fmul fp (fsub fp abs_z_score Z_SCORE_THRESHOLD) (flit fp 0.15)))) e
         else (None, e)))"

definition detect_battery_anomaly ::
  "float_arith \<Rightarrow> MetricStatistics \<Rightarrow> real \<Rightarrow> env \<Rightarrow> AnomalyAlert option \<times> env" where
  "detect_battery_anomaly fp stats v e =
     (if sample_count stats < 10 then (None, e)
      else if std_dev stats = 0 then (None, e)
      else
        (let z_score =
               (if std_dev stats > 0 then fdiv0 fp (fsub fp v (mean stats)) (std_dev stats)
                else 0.0);
             abs_z_score = \<bar>z_score\<bar> in
         if abs_z_score \<ge> Z_SCORE_CRITICAL then
           mk_anomaly ''battery'' CRITICAL v z_score
             (min (flit fp 0.99)
                (fadd fp (flit fp 0.7)
                   (fmul fp (fsub fp abs_z_score Z_SCORE_CRITICAL) (flit fp 0.1)))) e
         else if abs_z_score \<ge> Z_SCORE_THRESHOLD then
           mk_anomaly ''battery'' WARNING v z_score
             (min (flit fp 0.95)
                (fadd fp 0.5
                   (fmul fp (fsub fp abs_z_score Z_SCORE_THRESHOLD) (flit fp 0.15)))) e
         else (None, e)))"

definition append_alert :: "AnomalyAlert list \<Rightarrow> AnomalyAlert option \<Rightarrow> AnomalyAlert list" where
  "append_alert alerts a = (case a of None \<Rightarrow> alerts | Some x \<Rightarrow> alerts @ [x])"

definition detect_anomalies ::
  "float_arith \<Rightarrow> real \<Rightarrow> real \<Rightarrow> real \<Rightarrow> AnomalyDetector \<times> env \<Rightarrow>
     py_error + (AnomalyAlert list \<times> AnomalyDetector \<times> env)" where
  "detect_anomalies fp pressure radiation battery = (\<lambda>(d, e).
     case update_metric fp ''pressure'' pressure d of Inl err \<Rightarrow> Inl err | Inr d1 \<Rightarrow>
     (case update_metric fp ''radiation'' radiation d1 of Inl err \<Rightarrow> Inl err | Inr d2 \<Rightarrow>
     (case update_metric fp ''battery'' battery d2 of Inl err \<Rightarrow> Inl err | Inr d3 \<Rightarrow>
       (let alerts = [];
            (pressure_alert, e1) = detect_pressure_anomaly fp (pressure_stats d3) pressure e;
            alerts = append_alert alerts pressure_alert;
            (radiation_alert, e2) = detect_radiation_anomaly fp (radiation_stats d3) radiation e1;
            alerts = append_alert alerts radiation_alert;
            (battery_alert, e3) = detect_battery_anomaly fp (battery_stats d3) battery e2;
            alerts = append_alert alerts battery_alert
        in Inr (alerts, d3, e3)))))"

subsection \<open>Runs of the detector, and the severity table of the specification\<close>

text \<open>
  \<open>window\<close> is the append-and-evict step of \<open>update_metric\<close> on one history list.
  \<open>anomaly_run\<close> is a finite run of the periodic loop of \<open>main.py\<close>, one call of
  \<open>detect_anomalies\<close> per snapshot, collecting the alerts of each cycle.
  \<open>spec_classify\<close> is the severity table in the words of the specification: \<open>|z| \<ge> 3.5\<close>
  gives CRITICAL with confidence \<open>min(0.99, 0.7 + (|z| - 3.5) * 0.1)\<close>, otherwise
  \<open>|z| \<ge> 2.5\<close> gives WARNING with confidence \<open>min(0.95, 0.5 + (|z| - 2.5) * 0.15)\<close>,
  otherwise nothing; the two confidences are computed in the arithmetic of floats.
\<close>

definition spec_classify :: "float_arith \<Rightarrow> real \<Rightarrow> (AlertSeverity \<times> real) option" where
  "spec_classify fp z =
     (if \<bar>z\<bar> \<ge> 3.5 then
        Some (CRITICAL,
              min (flit fp 0.99) (fadd fp (flit fp 0.7) (fmul fp (fsub fp \<bar>z\<bar> 3.5) (flit fp 0.1))))
      else if \<bar>z\<bar> \<ge> 2.5 then
        Some (WARNING,
              min (flit fp 0.95) (fadd fp 0.5 (fmul fp (fsub fp \<bar>z\<bar> 2.5) (flit fp 0.15))))
      else None)"

definition window :: "nat \<Rightarrow> real list \<Rightarrow> real \<Rightarrow> real list" where
  "window m xs v = (if length (xs @ [v]) > m then tl (xs @ [v]) else xs @ [v])"

fun anomaly_run ::
  "float_arith \<Rightarrow> (real \<times> real \<times> real) list \<Rightarrow> AnomalyDetector \<times> env \<Rightarrow>
     py_error + (AnomalyAlert list list \<times> AnomalyDetector \<times> env)" where
  "anomaly_run fp [] (d, e) = Inr ([], d, e)"
| "anomaly_run fp ((p, r, b) # rest) (d, e) =
     (case detect_anomalies fp p r b (d, e) of
        Inl err \<Rightarrow> Inl err
      | Inr (alerts, d', e') \<Rightarrow>
          (case anomaly_run fp rest (d', e') of
             Inl err \<Rightarrow> Inl err
           | Inr (out, d'', e'') \<Rightarrow> Inr (alerts # out, d'', e'')))"

subsection \<open>The quantities the detector computes\<close>

text \<open>
  Names for expressions of the code above, used to state its properties: the \<open>mean\<close> and
  \<open>std_dev\<close> that \<open>update_metric\<close> stores, as functions of the window \<open>values\<close>; the
  \<open>z_score\<close> that each of the three detectors computes from the stored statistics; the
  three detector calls that \<open>detect_anomalies\<close> makes once the statistics are updated;
  and a test of the fields of the alert a detector returned.
\<close>

definition window_mean :: "float_arith \<Rightarrow> real list \<Rightarrow> real" where
  "window_mean fp w = fdiv0 fp (fsum fp w) (real (length w))"

definition window_std :: "float_arith \<Rightarrow> real list \<Rightarrow> real" where
  "window_std fp w =
     (let variance =
            fdiv0 fp (fsum fp (map (\<lambda>x. fpow2 fp (fsub fp x (window_mean fp w))) w))
              (real (length w))
      in if variance > 0 then fsqrt fp variance else 0.0)"

definition alert_with ::
  "AnomalyAlert option \<times> env \<Rightarrow> string \<Rightarrow> AlertSeverity \<Rightarrow> real \<Rightarrow> real \<Rightarrow> real \<Rightarrow> bool" where
  "alert_with res metric sev v z conf =
     (case fst res of
        None \<Rightarrow> False
      | Some a \<Rightarrow> aa_metric a = metric \<and> aa_severity a = sev \<and> aa_current_value a = v \<and>
                  aa_z_score a = z \<and> aa_confidence a = conf)"

definition run_detectors ::
  "float_arith \<Rightarrow> AnomalyDetector \<Rightarrow> real \<Rightarrow> real \<Rightarrow> real \<Rightarrow> env \<Rightarrow> AnomalyAlert list \<times> env" where
  "run_detectors fp d pressure radiation battery e =
     (let (pressure_alert, e1) = detect_pressure_anomaly fp (pressure_stats d) pressure e;
          (radiation_alert, e2) = detect_radiation_anomaly fp (radiation_stats d) radiation e1;
          (battery_alert, e3) = detect_battery_anomaly fp (battery_stats d) battery e2
      in (append_alert (append_alert (append_alert [] pressure_alert) radiation_alert)
            battery_alert, e3))"

definition z_score_of :: "float_arith \<Rightarrow> MetricStatistics \<Rightarrow> real \<Rightarrow> real" where
  "z_score_of fp stats v =
     (if std_dev stats > 0 then fdiv0 fp (fsub fp v (mean stats)) (std_dev stats) else 0.0)"

section \<open>safety\_layer.py\<close>

definition PRESSURE_LEAK_THRESHOLD :: real where "PRESSURE_LEAK_THRESHOLD = 2.0"
definition RADIATION_SPIKE_THRESHOLD :: real where "RADIATION_SPIKE_THRESHOLD = 0.1"
definition RADIATION_CRITICAL_THRESHOLD :: real where "RADIATION_CRITICAL_THRESHOLD = 0.5"
definition PRESSURE_CRITICAL_THRESHOLD :: real where "PRESSURE_CRITICAL_THRESHOLD = 90.0"

definition ALERT_PRESSURE_LEAK :: string where "ALERT_PRESSURE_LEAK = ''PRESSURE_LEAK''"
definition ALERT_RADIATION_SPIKE :: string where "ALERT_RADIATION_SPIKE = ''RADIATION_SPIKE''"
definition ALERT_RADIATION_CRITICAL :: string where
  "ALERT_RADIATION_CRITICAL = ''RADIATION_CRITICAL''"
definition ALERT_PRESSURE_CRITICAL :: string where
  "ALERT_PRESSURE_CRITICAL = ''PRESSURE_CRITICAL''"

subsection \<open>Alerts and recommendations of models.py\<close>

text \<open>
  An f-string is kept as its template and the values formatted into it, unrendered.
\<close>

datatype fstring = Fmt string "real list"

record Alert =
  alert_id :: string
  alert_timestamp :: int
  alert_severity :: AlertSeverity
  alert_category :: string
  alert_message :: fstring
  alert_system :: string
  alert_resolved :: bool

text \<open>
  The pydantic model \<open>models.Recommendation\<close>, the one the safety layer returns.
  Its \<open>priority\<close> is a \<open>str\<close> (\<open>"low"\<close>, \<open>"medium"\<close>, \<open>"high"\<close>).
\<close>

record ModelsRecommendation =
  mr_id :: string
  mr_timestamp :: int
  mr_priority :: string
  mr_category :: string
  mr_title :: string
  mr_description :: fstring
  mr_action_required :: bool

text \<open>The dictionary stored in \<open>pending_approvals\<close> under a recommendation id.\<close>

record Approval =
  ap_action_id :: string
  ap_category :: string
  ap_title :: string
  ap_description :: fstring
  ap_timestamp :: int
  approved :: bool
  approved_by :: "string option"
  approved_at :: "int option"

subsection \<open>Python list indexing and float division\<close>

definition py_index :: "'a list \<Rightarrow> int \<Rightarrow> py_error + 'a" where
  "py_index xs i =
     (if 0 \<le> i \<and> i < int (length xs) then Inr (xs ! nat i)
      else if i < 0 \<and> - int (length xs) \<le> i then Inr (xs ! nat (int (length xs) + i))
      else Inl IndexError)"

definition py_truediv :: "float_arith \<Rightarrow> real \<Rightarrow> real \<Rightarrow> py_error + real" where
  "py_truediv fp x y = (if y \<noteq> 0 then Inr (fdiv0 fp x y) else Inl ZeroDivisionError)"

subsection \<open>PressureHistory\<close>

record PressureHistory =
  ph_readings :: "(int \<times> real) list"
  max_history_minutes :: int

definition PressureHistory_init :: PressureHistory where
  "PressureHistory_init = \<lparr>ph_readings = [], max_history_minutes = 5\<rparr>"

text \<open>\<open>timedelta(minutes=m)\<close> in microseconds.\<close>

definition timedelta_minutes :: "int \<Rightarrow> int" where
  "timedelta_minutes m = m * 60 * 1000000"

definition ph_add_reading :: "real \<Rightarrow> PressureHistory \<times> env \<Rightarrow> PressureHistory \<times> env" where
  "ph_add_reading p = (\<lambda>(h, e).
     let (now, e1) = utcnow e;
         rs = ph_readings h @ [(now, p)];
         cutoff_time = now - timedelta_minutes (max_history_minutes h)
     in (h\<lparr>ph_readings := filter (\<lambda>(ts, val). ts \<ge> cutoff_time) rs\<rparr>, e1))"

text \<open>
  \<open>(newest_ts - oldest_ts).total_seconds()\<close> is the difference in microseconds divided by
  \<open>10^6\<close>. The two divisions by a variable are \<open>py_truediv\<close>, which raises on a zero divisor.
\<close>

definition get_rate_of_change :: "float_arith \<Rightarrow> PressureHistory \<Rightarrow> py_error + real option" where
  "get_rate_of_change fp h =
     (if length (ph_readings h) < 2 then Inr None
      else
        case py_index (ph_readings h) 0 of Inl err \<Rightarrow> Inl err
        | Inr (oldest_ts, oldest_pressure) \<Rightarrow>
        (case py_index (ph_readings h) (- 1) of Inl err \<Rightarrow> Inl err
         | Inr (newest_ts, newest_pressure) \<Rightarrow>
         (let time_diff =
                fdiv0 fp (fdiv0 fp (real_of_int (newest_ts - oldest_ts)) 1000000) 60.0 in
          if time_diff = 0 then Inr None
          else if oldest_pressure = 0 then Inr None
          else
            (case py_truediv fp (fsub fp newest_pressure oldest_pressure) oldest_pressure of
               Inl err \<Rightarrow> Inl err
             | Inr q \<Rightarrow>
               (let pressure_change_pct = fmul fp q 100.0 in
                case py_truediv fp pressure_change_pct time_diff of
                  Inl err \<Rightarrow> Inl err
                | Inr rate_per_minute \<Rightarrow> Inr (Some rate_per_minute))))))"

subsection \<open>RadiationHistory\<close>

record RadiationHistory =
  baseline :: "real option"
  rh_readings :: "(int \<times> real) list"
  max_readings :: nat

definition RadiationHistory_init :: RadiationHistory where
  "RadiationHistory_init = \<lparr>baseline = None, rh_readings = [], max_readings = 10\<rparr>"

text \<open>
  The slice \<open>xs[-n:]\<close>: the last \<open>n\<close> elements, all of them if there are fewer; for
  \<open>n = 0\<close> it is \<open>xs[0:]\<close>, the whole list.
\<close>

definition last_n :: "nat \<Rightarrow> 'a list \<Rightarrow> 'a list" where
  "last_n n xs = (if n = 0 then xs else drop (length xs - n) xs)"

definition rh_add_reading ::
  "float_arith \<Rightarrow> real \<Rightarrow> RadiationHistory \<times> env \<Rightarrow> RadiationHistory \<times> env" where
  "rh_add_reading fp r = (\<lambda>(h, e).
     let (now, e1) = utcnow e;
         rs = rh_readings h @ [(now, r)];
         rs = (if length rs > max_readings h then last_n (max_readings h) rs else rs);
         h = h\<lparr>rh_readings := rs\<rparr>
     in if length rs \<ge> 5 then
          (let recent = map snd (last_n 5 rs) in
           (h\<lparr>baseline := Some (fdiv0 fp (fsum fp recent) (real (length recent)))\<rparr>, e1))
        else (h, e1))"

definition is_spike :: "float_arith \<Rightarrow> RadiationHistory \<Rightarrow> real \<Rightarrow> bool" where
  "is_spike fp h current =
     (case baseline h of None \<Rightarrow> False
      | Some b \<Rightarrow> current > fadd fp b (flit fp RADIATION_SPIKE_THRESHOLD))"

definition is_critical :: "RadiationHistory \<Rightarrow> real \<Rightarrow> bool" where
  "is_critical h current = (current \<ge> RADIATION_CRITICAL_THRESHOLD)"

subsection \<open>SafetyLayer\<close>

record SafetyLayer =
  pressure_history :: PressureHistory
  radiation_history :: RadiationHistory
  active_alerts :: "string \<rightharpoonup> Alert"
  pending_approvals :: "string \<rightharpoonup> Approval"

definition SafetyLayer_init :: SafetyLayer where
  "SafetyLayer_init =
     \<lparr>pressure_history = PressureHistory_init, radiation_history = RadiationHistory_init,
      active_alerts = Map.empty, pending_approvals = Map.empty\<rparr>"

definition create_critical_recommendation ::
  "string \<Rightarrow> string \<Rightarrow> string \<Rightarrow> fstring \<Rightarrow> bool \<Rightarrow> SafetyLayer \<times> env \<Rightarrow>
     ModelsRecommendation \<times> SafetyLayer \<times> env" where
  "create_critical_recommendation action_id cat title description requires_approval =
     (\<lambda>(s, e).
       let (rid, e1) = uuid4 e;
           (s1, e2) =
             (if requires_approval then
                (let (now, e') = utcnow e1 in
                 (s\<lparr>pending_approvals := (pending_approvals s)(rid \<mapsto>
                      \<lparr>ap_action_id = action_id, ap_category = cat, ap_title = title,
                       ap_description = description, ap_timestamp = now, approved = False,
                       approved_by = None, approved_at = None\<rparr>)\<rparr>, e'))
              else (s, e1));
           (now, e3) = utcnow e2
       in (\<lparr>mr_id = rid, mr_timestamp = now, mr_priority = ''high'', mr_category = cat,
            mr_title = title, mr_description = description, mr_action_required = True\<rparr>,
           s1, e3))"

text \<open>
  The pattern shared by the four hazards: \<open>if alert_id not in self.active_alerts\<close>, build
  the alert (identifier, then clock), record it under \<open>alert_id\<close>, and create the
  recommendation; otherwise nothing.
\<close>

definition raise_alert ::
  "string \<Rightarrow> AlertSeverity \<Rightarrow> string \<Rightarrow> fstring \<Rightarrow> string \<Rightarrow>
   string \<Rightarrow> string \<Rightarrow> fstring \<Rightarrow> SafetyLayer \<times> env \<Rightarrow>
     (Alert list \<times> ModelsRecommendation list) \<times> SafetyLayer \<times> env" where
  "raise_alert alert_key sev cat msg sys action_id title description = (\<lambda>(s, e).
     if alert_key \<notin> dom (active_alerts s) then
       (let (i, e1) = uuid4 e;
            (now, e2) = utcnow e1;
            alert = \<lparr>alert_id = i, alert_timestamp = now, alert_severity = sev,
                     alert_category = cat, alert_message = msg, alert_system = sys,
                     alert_resolved = False\<rparr>;
            s1 = s\<lparr>active_alerts := (active_alerts s)(alert_key \<mapsto> alert)\<rparr>;
            (rec, s2, e3) = create_critical_recommendation action_id cat title description True (s1, e2)
        in (([alert], [rec]), s2, e3))
     else (([], []), s, e))"

definition check_pressure ::
  "float_arith \<Rightarrow> SettlementState \<Rightarrow> SafetyLayer \<times> env \<Rightarrow>
     py_error + ((Alert list \<times> ModelsRecommendation list) \<times> SafetyLayer \<times> env)" where
  "check_pressure fp state = (\<lambda>(s, e).
     case get_rate_of_change fp (pressure_history s) of
       Inl err \<Rightarrow> Inl err
     | Inr rate \<Rightarrow>
         (if rate \<noteq> None \<and> the rate < - PRESSURE_LEAK_THRESHOLD then
            Inr (raise_alert ALERT_PRESSURE_LEAK CRITICAL ''pressure''
                   (Fmt ''PRESSURE LEAK DETECTED: Pressure dropping at {:.2f}% per minute''
                      [\<bar>the rate\<bar>])
                   ''atmosphere'' ''ISOLATE_COMPARTMENTS'' ''Isolate Compartments''
                   (Fmt ''Pressure leak detected (dropping at {:.2f}% per minute). Recommend immediate compartment isolation to prevent further pressure loss.''
                      [\<bar>the rate\<bar>])
                   (s, e))
          else if ALERT_PRESSURE_LEAK \<in> dom (active_alerts s)
                  \<and> (rate = None \<or> the rate \<ge> - PRESSURE_LEAK_THRESHOLD) then
            Inr (([], []), s\<lparr>active_alerts := (active_alerts s)(ALERT_PRESSURE_LEAK := None)\<rparr>, e)
          else Inr (([], []), s, e)))"

definition check_radiation ::
  "float_arith \<Rightarrow> SettlementState \<Rightarrow> SafetyLayer \<times> env \<Rightarrow>
     (Alert list \<times> ModelsRecommendation list) \<times> SafetyLayer \<times> env" where
  "check_radiation fp state = (\<lambda>(s, e).
     if is_critical (radiation_history s) (radiation_msv_hr state) then
       raise_alert ALERT_RADIATION_CRITICAL CRITICAL ''radiation''
         (Fmt ''CRITICAL: Radiation level at {:.4f} mSv/hr (threshold: {} mSv/hr)''
            [radiation_msv_hr state, RADIATION_CRITICAL_THRESHOLD])
         ''radiation'' ''ACTIVATE_STORM_SHELTER'' ''Activate Storm Shelter Protocol''
         (Fmt ''Radiation level critical ({:.4f} mSv/hr). All personnel must immediately proceed to storm shelters.''
            [radiation_msv_hr state])
         (s, e)
     else if is_spike fp (radiation_history s) (radiation_msv_hr state) then
       raise_alert ALERT_RADIATION_SPIKE WARNING ''radiation''
         (Fmt ''Radiation spike detected: {:.4f} mSv/hr (baseline: {:.4f} mSv/hr)''
            [radiation_msv_hr state,
             (case baseline (radiation_history s) of None \<Rightarrow> 0.0
              | Some b \<Rightarrow> if b = 0 then 0.0 else b)])
         ''radiation'' ''PREPARE_STORM_SHELTER'' ''Prepare Storm Shelter''
         (Fmt ''Radiation spike detected ({:.4f} mSv/hr). Prepare to move to storm shelters if levels continue to rise.''
            [radiation_msv_hr state])
         (s, e)
     else if ALERT_RADIATION_SPIKE \<in> dom (active_alerts s)
             \<and> \<not> is_spike fp (radiation_history s) (radiation_msv_hr state) then
       (([], []), s\<lparr>active_alerts := (active_alerts s)(ALERT_RADIATION_SPIKE := None)\<rparr>, e)
     else (([], []), s, e))"

text \<open>\<open>check_safety(state, telemetry)\<close>; the argument \<open>telemetry\<close> is never read.\<close>

definition check_safety ::
  "float_arith \<Rightarrow> SettlementState \<Rightarrow> 't \<Rightarrow> SafetyLayer \<times> env \<Rightarrow>
     py_error + ((Alert list \<times> ModelsRecommendation list) \<times> SafetyLayer \<times> env)" where
  "check_safety fp state telemetry = (\<lambda>(s, e).
     let (ph, e1) = ph_add_reading (pressure_kpa state) (pressure_history s, e);
         s1 = s\<lparr>pressure_history := ph\<rparr>;
         (rh, e2) = rh_add_reading fp (radiation_msv_hr state) (radiation_history s1, e1);
         s2 = s1\<lparr>radiation_history := rh\<rparr>
     in case check_pressure fp state (s2, e2) of
          Inl err \<Rightarrow> Inl err
        | Inr ((pressure_alerts, pressure_recs), s3, e3) \<Rightarrow>
            (let ((crit_alerts, crit_recs), s4, e4) =
                   (if pressure_kpa state < PRESSURE_CRITICAL_THRESHOLD then
                      raise_alert ALERT_PRESSURE_CRITICAL CRITICAL ''pressure''
                        (Fmt ''CRITICAL: Pressure critically low at {:.2f} kPa''
                           [pressure_kpa state])
                        ''atmosphere'' ''IMMEDIATE_EVACUATION'' ''Immediate Evacuation Required''
                        (Fmt ''Pressure has dropped to critical level ({:.2f} kPa). Immediate evacuation to emergency shelters required.''
                           [pressure_kpa state])
                        (s3, e3)
                    else (([], []), s3, e3));
                 ((radiation_alerts, radiation_recs), s5, e5) = check_radiation fp state (s4, e4)
             in Inr ((pressure_alerts @ crit_alerts @ radiation_alerts,
                      pressure_recs @ crit_recs @ radiation_recs), s5, e5)))"

definition approve_action :: "string \<Rightarrow> string \<Rightarrow> SafetyLayer \<times> env \<Rightarrow> bool \<times> SafetyLayer \<times> env" where
  "approve_action recommendation_id approver = (\<lambda>(s, e).
     case pending_approvals s recommendation_id of
       None \<Rightarrow> (False, s, e)
     | Some approval \<Rightarrow>
         (if approved approval then (False, s, e)
          else
            (let (now, e1) = utcnow e;
                 approval = approval\<lparr>approved := True\<rparr>;
                 approval = approval\<lparr>approved_by := Some approver\<rparr>;
                 approval = approval\<lparr>approved_at := Some now\<rparr>
             in (True,
                 s\<lparr>pending_approvals := (pending_approvals s)(recommendation_id \<mapsto> approval)\<rparr>,
                 e1))))"

definition get_approval_status :: "SafetyLayer \<Rightarrow> string \<Rightarrow> Approval option" where
  "get_approval_status s recommendation_id = pending_approvals s recommendation_id"

subsection \<open>Runs of the safety layer\<close>

text \<open>
  A finite run of the periodic loop of \<open>main.py\<close>: one call of \<open>check_safety\<close> per
  snapshot, collecting what each call returns.
\<close>

fun safety_run ::
  "float_arith \<Rightarrow> SettlementState list \<Rightarrow> SafetyLayer \<times> env \<Rightarrow>
     py_error + ((Alert list \<times> ModelsRecommendation list) list \<times> SafetyLayer \<times> env)" where
  "safety_run fp [] (s, e) = Inr ([], s, e)"
| "safety_run fp (state # rest) (s, e) =
     (case check_safety fp state () (s, e) of
        Inl err \<Rightarrow> Inl err
      | Inr (out, s', e') \<Rightarrow>
          (case safety_run fp rest (s', e') of
             Inl err \<Rightarrow> Inl err
           | Inr (outs, s'', e'') \<Rightarrow> Inr (out # outs, s'', e'')))"

text \<open>The outputs of a run, the safety layer it ends in, and the keys of its active alerts.\<close>

definition run_outputs ::
  "py_error + ((Alert list \<times> ModelsRecommendation list) list \<times> SafetyLayer \<times> env) \<Rightarrow>
     (Alert list \<times> ModelsRecommendation list) list" where
  "run_outputs r = (case r of Inr (outs, s, e) \<Rightarrow> outs | Inl err \<Rightarrow> [])"

definition run_final ::
  "py_error + ((Alert list \<times> ModelsRecommendation list) list \<times> SafetyLayer \<times> env) \<Rightarrow>
     SafetyLayer option" where
  "run_final r = (case r of Inr (outs, s, e) \<Rightarrow> Some s | Inl err \<Rightarrow> None)"

definition run_active ::
  "py_error + ((Alert list \<times> ModelsRecommendation list) list \<times> SafetyLayer \<times> env) \<Rightarrow> string set" where
  "run_active r = (case r of Inr (outs, s, e) \<Rightarrow> dom (active_alerts s) | Inl err \<Rightarrow> {})"

subsection \<open>Priorities as Python values\<close>

text \<open>
  The two recommendation classes differ in the type of \<open>priority\<close>: an \<open>int\<close> in
  \<open>decision_engine.Recommendation\<close>, a \<open>str\<close> in \<open>models.Recommendation\<close>. A statement
  about the priority of every recommendation is a statement about a Python value of either
  type; \<open>is_int_in lo hi v\<close> says that \<open>v\<close> is an integer between \<open>lo\<close> and \<open>hi\<close>.
  \<open>prio_ok\<close> is the range documented for the decision engine (\<open>priority: int  # 1-10\<close>).
\<close>

datatype py_value = PyInt int | PyStr string

definition is_int_in :: "int \<Rightarrow> int \<Rightarrow> py_value \<Rightarrow> bool" where
  "is_int_in lo hi v = (case v of PyInt n \<Rightarrow> lo \<le> n \<and> n \<le> hi | PyStr x \<Rightarrow> False)"

definition prio_ok :: "Recommendation \<Rightarrow> bool" where
  "prio_ok r \<longleftrightarrow> 1 \<le> priority r \<and> priority r \<le> 10"

section \<open>Properties of the decision engine\<close>

lemmas threshold_defs =
  o2_min_def o2_optimal_min_def o2_optimal_max_def co2_max_def co2_warning_def
  pressure_min_def pressure_optimal_min_def pressure_optimal_max_def temp_min_def
  temp_max_def humidity_min_def humidity_max_def crop_health_min_def
  crop_health_optimal_def battery_min_def battery_warning_def battery_optimal_min_def
  battery_optimal_max_def solar_min_def load_max_def load_optimal_max_def
  energy_reserve_min_def

lemma py_int_of_int [simp]: "py_int (real_of_int n) = n"
  by (simp add: py_int_def)

lemma calculate_priority_range:
  "1 \<le> calculate_priority d k c \<and> calculate_priority d k c \<le> 10"
  by (simp add: calculate_priority_def Let_def)

lemma py_int_numeral [simp]: "py_int (numeral n) = numeral n"
  by (simp add: py_int_def)

lemma py_int_numeral_div [simp]: "py_int (numeral n / numeral m) = numeral n div numeral m"
  by (simp add: py_int_def)

lemma calculate_priority_critical: "calculate_priority d ''critical'' c = 10"
  by (simp add: calculate_priority_def Let_def impact_multiplier_def)

lemma calculate_priority_spec:
  assumes "k \<in> {''critical'', ''high'', ''medium'', ''low''}"
  shows "calculate_priority d k c =
        min 10 (max 1
          (py_int (real_of_int (5 + (if \<bar>d\<bar> > 20 then 3 else if \<bar>d\<bar> > 10 then 2
                                     else if \<bar>d\<bar> > 5 then 1 else 0))
                   * (if k = ''critical'' then 2 else if k = ''high'' then 1.5
                      else if k = ''medium'' then 1 else 0.5))
           + (if c then 2 else 0)))"
proof -
  from assms consider "k = ''critical''" | "k = ''high''" | "k = ''medium''" | "k = ''low''"
    by blast
  then show ?thesis
  proof cases
    case 1 then show ?thesis by (simp add: calculate_priority_def Let_def impact_multiplier_def)
  next
    case 2 then show ?thesis by (simp add: calculate_priority_def Let_def impact_multiplier_def)
  next
    case 3 then show ?thesis by (simp add: calculate_priority_def Let_def impact_multiplier_def)
  next
    case 4 then show ?thesis by (simp add: calculate_priority_def Let_def impact_multiplier_def)
  qed
qed

text \<open>
  Claim C8. For every deviation \<open>d\<close>, impact level \<open>k\<close> among critical, high, medium, low
  and flag \<open>c\<close>, \<open>calculate_priority d k c\<close> is the clamp to \<open>[1,10]\<close> of: \<open>5\<close> plus \<open>3\<close>,
  \<open>2\<close>, \<open>1\<close> or \<open>0\<close> as \<open>|d|\<close> exceeds \<open>20\<close>, \<open>10\<close>, \<open>5\<close> or none of them, times the impact
  factor \<open>2\<close>, \<open>1.5\<close>, \<open>1\<close>, \<open>0.5\<close>, truncated to an integer, plus \<open>2\<close> when \<open>c\<close> holds.
  For a state with \<open>o2_pct = 19.0\<close> the deviation from \<open>o2_min\<close> is \<open>1.0\<close> and the oxygen
  analyzer returns the recommendation with action \<open>INCREASE_O2_GENERATION\<close>, impact
  critical and priority \<open>min(10, (5+0)*2 + 2) = 10\<close>. With impact critical and the critical
  flag the priority is \<open>10\<close> for every deviation, and no priority exceeds \<open>10\<close>.
\<close>

theorem C8_priority_formula:
  "(k \<in> {''critical'', ''high'', ''medium'', ''low''} \<longrightarrow>
      calculate_priority d k c =
        min 10 (max 1
          (py_int (real_of_int (5 + (if \<bar>d\<bar> > 20 then 3 else if \<bar>d\<bar> > 10 then 2
                                     else if \<bar>d\<bar> > 5 then 1 else 0))
                   * (if k = ''critical'' then 2 else if k = ''high'' then 1.5
                      else if k = ''medium'' then 1 else 0.5))
           + (if c then 2 else 0))))
   \<and> (o2_pct state = 19.0 \<longrightarrow>
        o2_min - o2_pct state = 1.0 \<and>
        analyze_oxygen state rid =
          Some (mk_rec rid (min 10 ((5 + 0) * 2 + 2)) ''life_support'' ''INCREASE_O2_GENERATION''
                  19.0 20.0 ''critical'' 0.95))
   \<and> (\<forall>d'. calculate_priority d' ''critical'' True = 10)
   \<and> calculate_priority d k c \<le> 10"
  apply (intro conjI impI allI)
  subgoal by (rule calculate_priority_spec)
  subgoal by (simp add: o2_min_def)
  subgoal by (simp add: analyze_oxygen_def Let_def o2_min_def calculate_priority_critical)
  subgoal by (rule calculate_priority_critical)
  subgoal by (simp add: calculate_priority_def Let_def)
  done

theorem C8_priority_formula_witness:
  "''high'' \<in> {''critical'', ''high'', ''medium'', ''low''} \<and>
   calculate_priority 7 ''high'' False = 9 \<and>
   o2_pct \<lparr>o2_pct = 19.0, co2_ppm = 400.0, pressure_kpa = 101.325, temp_c = 20.0,
      humidity_pct = 50.0, solar_kw = 1000.0, battery_kwh = 500.0, load_kw = 800.0,
      crop_health_index = 85.0, radiation_msv_hr = 0.02, strain_index = 0.5\<rparr> = 19.0 \<and>
   priority (the (analyze_oxygen \<lparr>o2_pct = 19.0, co2_ppm = 400.0, pressure_kpa = 101.325,
      temp_c = 20.0, humidity_pct = 50.0, solar_kw = 1000.0, battery_kwh = 500.0,
      load_kw = 800.0, crop_health_index = 85.0, radiation_msv_hr = 0.02,
      strain_index = 0.5\<rparr> ''r1'')) = 10"
  using C8_priority_formula [of "''high''" 7 False
      "\<lparr>o2_pct = 19.0, co2_ppm = 400.0, pressure_kpa = 101.325, temp_c = 20.0,
        humidity_pct = 50.0, solar_kw = 1000.0, battery_kwh = 500.0, load_kw = 800.0,
        crop_health_index = 85.0, radiation_msv_hr = 0.02, strain_index = 0.5\<rparr>" "''r1''"]
  by (simp add: mk_rec_def o2_min_def)

section \<open>Properties of the anomaly detector\<close>

lemmas z_defs = Z_SCORE_CRITICAL_def Z_SCORE_THRESHOLD_def

lemma mk_anomaly_eq:
  "mk_anomaly m sev v z conf e =
     (Some \<lparr>aa_id = uuids e (uuid_draws e), aa_timestamp = clock e (clock_reads e), aa_metric = m,
            aa_severity = sev, aa_current_value = v, aa_z_score = z, aa_confidence = conf\<rparr>,
      e\<lparr>clock_reads := Suc (clock_reads e), uuid_draws := Suc (uuid_draws e)\<rparr>)"
  by (simp add: mk_anomaly_def uuid4_def utcnow_def Let_def)

lemma detect_pressure_unfold:
  "detect_pressure_anomaly fp stats v e =
     (if sample_count stats < 10 \<or> std_dev stats \<le> 0 then (None, e)
      else case spec_classify fp (fdiv0 fp (fsub fp v (mean stats)) (std_dev stats)) of
             None \<Rightarrow> (None, e)
           | Some (sev, conf) \<Rightarrow>
               mk_anomaly ''pressure'' sev v (fdiv0 fp (fsub fp v (mean stats)) (std_dev stats)) conf e)"
  by (simp add: detect_pressure_anomaly_def Let_def z_defs spec_classify_def)

lemma detect_battery_unfold:
  "detect_battery_anomaly fp stats v e =
     (if sample_count stats < 10 \<or> std_dev stats \<le> 0 then (None, e)
      else case spec_classify fp (fdiv0 fp (fsub fp v (mean stats)) (std_dev stats)) of
             None \<Rightarrow> (None, e)
           | Some (sev, conf) \<Rightarrow>
               mk_anomaly ''battery'' sev v (fdiv0 fp (fsub fp v (mean stats)) (std_dev stats)) conf e)"
  by (simp add: detect_battery_anomaly_def Let_def z_defs spec_classify_def)

lemma detect_radiation_unfold:
  "detect_radiation_anomaly fp stats v e =
     (if sample_count stats < 10 \<or> std_dev stats \<le> 0 \<or>
         fdiv0 fp (fsub fp v (mean stats)) (std_dev stats) \<le> 0
      then (None, e)
      else case spec_classify fp (fdiv0 fp (fsub fp v (mean stats)) (std_dev stats)) of
             None \<Rightarrow> (None, e)
           | Some (sev, conf) \<Rightarrow>
               mk_anomaly ''radiation'' sev v (fdiv0 fp (fsub fp v (mean stats)) (std_dev stats)) conf e)"
  by (simp add: detect_radiation_anomaly_def Let_def z_defs spec_classify_def)

lemma spec_classify_None: "spec_classify fp z = None \<longleftrightarrow> \<bar>z\<bar> < 2.5"
  unfolding spec_classify_def by simp

lemma spec_classify_critical:
  "\<bar>z\<bar> \<ge> 3.5 \<Longrightarrow> spec_classify fp z =
     Some (CRITICAL, min (flit fp 0.99) (fadd fp (flit fp 0.7) (fmul fp (fsub fp \<bar>z\<bar> 3.5) (flit fp 0.1))))"
  unfolding spec_classify_def by simp

lemma spec_classify_warning:
  "\<bar>z\<bar> \<ge> 2.5 \<Longrightarrow> \<bar>z\<bar> < 3.5 \<Longrightarrow> spec_classify fp z =
     Some (WARNING, min (flit fp 0.95) (fadd fp 0.5 (fmul fp (fsub fp \<bar>z\<bar> 2.5) (flit fp 0.15))))"
  unfolding spec_classify_def by simp

lemma detect_pressure_Some:
  assumes "detect_pressure_anomaly fp stats v e = (Some a, e')"
  shows "sample_count stats \<ge> 10 \<and> std_dev stats > 0 \<and>
         aa_z_score a = fdiv0 fp (fsub fp v (mean stats)) (std_dev stats) \<and>
         spec_classify fp (fdiv0 fp (fsub fp v (mean stats)) (std_dev stats))
           = Some (aa_severity a, aa_confidence a)"
  using assms
  by (auto simp: detect_pressure_unfold mk_anomaly_eq split: if_splits option.splits)

lemma detect_battery_Some:
  assumes "detect_battery_anomaly fp stats v e = (Some a, e')"
  shows "sample_count stats \<ge> 10 \<and> std_dev stats > 0 \<and>
         aa_z_score a = fdiv0 fp (fsub fp v (mean stats)) (std_dev stats) \<and>
         spec_classify fp (fdiv0 fp (fsub fp v (mean stats)) (std_dev stats))
           = Some (aa_severity a, aa_confidence a)"
  using assms
  by (auto simp: detect_battery_unfold mk_anomaly_eq split: if_splits option.splits)

lemma detect_radiation_Some:
  assumes "detect_radiation_anomaly fp stats v e = (Some a, e')"
  shows "sample_count stats \<ge> 10 \<and> std_dev stats > 0 \<and>
         aa_z_score a = fdiv0 fp (fsub fp v (mean stats)) (std_dev stats) \<and> aa_z_score a > 0 \<and>
         spec_classify fp (fdiv0 fp (fsub fp v (mean stats)) (std_dev stats))
           = Some (aa_severity a, aa_confidence a)"
  using assms
  by (auto simp: detect_radiation_unfold mk_anomaly_eq split: if_splits option.splits)

lemma detect_none_low_z:
  assumes "spec_classify fp (fdiv0 fp (fsub fp v (mean stats)) (std_dev stats)) = None"
  shows "detect_pressure_anomaly fp stats v e = (None, e)"
    and "detect_radiation_anomaly fp stats v e = (None, e)"
    and "detect_battery_anomaly fp stats v e = (None, e)"
  using assms
  by (simp_all add: detect_pressure_unfold detect_radiation_unfold detect_battery_unfold)

lemma detect_none_insufficient:
  assumes "sample_count stats < 10 \<or> std_dev stats = 0"
  shows "detect_pressure_anomaly fp stats v e = (None, e)"
    and "detect_radiation_anomaly fp stats v e = (None, e)"
    and "detect_battery_anomaly fp stats v e = (None, e)"
  using assms
  by (auto simp: detect_pressure_unfold detect_radiation_unfold detect_battery_unfold)

lemma detect_pressure_emits:
  assumes "sample_count stats \<ge> 10" "std_dev stats > 0"
      and "spec_classify fp (fdiv0 fp (fsub fp v (mean stats)) (std_dev stats)) = Some (sev, conf)"
  shows "alert_with (detect_pressure_anomaly fp stats v e) ''pressure'' sev v
           (fdiv0 fp (fsub fp v (mean stats)) (std_dev stats)) conf"
  using assms by (simp add: detect_pressure_unfold mk_anomaly_eq alert_with_def)

lemma detect_battery_emits:
  assumes "sample_count stats \<ge> 10" "std_dev stats > 0"
      and "spec_classify fp (fdiv0 fp (fsub fp v (mean stats)) (std_dev stats)) = Some (sev, conf)"
  shows "alert_with (detect_battery_anomaly fp stats v e) ''battery'' sev v
           (fdiv0 fp (fsub fp v (mean stats)) (std_dev stats)) conf"
  using assms by (simp add: detect_battery_unfold mk_anomaly_eq alert_with_def)

lemma detect_radiation_emits:
  assumes "sample_count stats \<ge> 10" "std_dev stats > 0"
      and "fdiv0 fp (fsub fp v (mean stats)) (std_dev stats) > 0"
      and "spec_classify fp (fdiv0 fp (fsub fp v (mean stats)) (std_dev stats)) = Some (sev, conf)"
  shows "alert_with (detect_radiation_anomaly fp stats v e) ''radiation'' sev v
           (fdiv0 fp (fsub fp v (mean stats)) (std_dev stats)) conf"
  using assms by (simp add: detect_radiation_unfold mk_anomaly_eq alert_with_def)

lemma update_metric_result:
  assumes "get_stats d n = Inr st" and "history d n = Some xs"
  shows "\<exists>d' st'. update_metric fp n v d = Inr d' \<and> get_stats d' n = Inr st' \<and>
           sample_count st' = sample_count st + 1 \<and>
           history d' = (history d)(n \<mapsto> window (max_history_size d) xs v) \<and>
           max_history_size d' = max_history_size d \<and>
           (n \<noteq> ''pressure'' \<longrightarrow> pressure_stats d' = pressure_stats d) \<and>
           (n \<noteq> ''radiation'' \<longrightarrow> radiation_stats d' = radiation_stats d) \<and>
           (n \<noteq> ''battery'' \<longrightarrow> battery_stats d' = battery_stats d) \<and>
           (length (window (max_history_size d) xs v) \<ge> 2 \<longrightarrow>
              mean st' = window_mean fp (window (max_history_size d) xs v) \<and>
              std_dev st' = window_std fp (window (max_history_size d) xs v))"
proof -
  from assms(1) consider "n = ''pressure''" | "n = ''radiation''" | "n = ''battery''"
    by (auto simp: get_stats_def split: if_splits)
  then show ?thesis
  proof cases
    case 1
    with assms show ?thesis
      by (simp add: update_metric_def get_stats_def put_stats_def Let_def window_def
            window_mean_def window_std_def)
  next
    case 2
    with assms show ?thesis
      by (simp add: update_metric_def get_stats_def put_stats_def Let_def window_def
            window_mean_def window_std_def)
  next
    case 3
    with assms show ?thesis
      by (simp add: update_metric_def get_stats_def put_stats_def Let_def window_def
            window_mean_def window_std_def)
  qed
qed

lemma window_last: "length (window m xs v) \<ge> 2 \<Longrightarrow> last (window m xs v) = v"
  by (cases xs) (auto simp: window_def split: if_splits)

lemma get_stats_simps:
  "get_stats d ''pressure'' = Inr (pressure_stats d)"
  "get_stats d ''radiation'' = Inr (radiation_stats d)"
  "get_stats d ''battery'' = Inr (battery_stats d)"
  by (simp_all add: get_stats_def)

lemma detect_anomalies_step:
  assumes "history d ''pressure'' = Some xp" "history d ''radiation'' = Some xr"
          "history d ''battery'' = Some xb"
  shows "\<exists>d'. detect_anomalies fp p r b (d, e) =
               Inr (fst (run_detectors fp d' p r b e), d', snd (run_detectors fp d' p r b e)) \<and>
           history d' ''pressure'' = Some (window (max_history_size d) xp p) \<and>
           history d' ''radiation'' = Some (window (max_history_size d) xr r) \<and>
           history d' ''battery'' = Some (window (max_history_size d) xb b) \<and>
           max_history_size d' = max_history_size d \<and>
           sample_count (pressure_stats d') = sample_count (pressure_stats d) + 1 \<and>
           sample_count (radiation_stats d') = sample_count (radiation_stats d) + 1 \<and>
           sample_count (battery_stats d') = sample_count (battery_stats d) + 1 \<and>
           (length (window (max_history_size d) xp p) \<ge> 2 \<longrightarrow>
              mean (pressure_stats d') = window_mean fp (window (max_history_size d) xp p) \<and>
              std_dev (pressure_stats d') = window_std fp (window (max_history_size d) xp p)) \<and>
           (length (window (max_history_size d) xr r) \<ge> 2 \<longrightarrow>
              mean (radiation_stats d') = window_mean fp (window (max_history_size d) xr r) \<and>
              std_dev (radiation_stats d') = window_std fp (window (max_history_size d) xr r)) \<and>
           (length (window (max_history_size d) xb b) \<ge> 2 \<longrightarrow>
              mean (battery_stats d') = window_mean fp (window (max_history_size d) xb b) \<and>
              std_dev (battery_stats d') = window_std fp (window (max_history_size d) xb b))"
proof -
  let ?m = "max_history_size d"
  from update_metric_result[OF get_stats_simps(1) assms(1), of fp p]
  obtain d1 where d1: "update_metric fp ''pressure'' p d = Inr d1"
    "sample_count (pressure_stats d1) = sample_count (pressure_stats d) + 1"
    "history d1 = (history d)(''pressure'' \<mapsto> window ?m xp p)"
    "max_history_size d1 = ?m"
    "radiation_stats d1 = radiation_stats d" "battery_stats d1 = battery_stats d"
    "length (window ?m xp p) \<ge> 2 \<longrightarrow>
              mean (pressure_stats d1) = window_mean fp (window ?m xp p) \<and>
              std_dev (pressure_stats d1) = window_std fp (window ?m xp p)"
    by (auto simp: get_stats_simps)
  from d1(3) assms have h1: "history d1 ''radiation'' = Some xr" "history d1 ''battery'' = Some xb"
    "history d1 ''pressure'' = Some (window ?m xp p)"
    by simp_all
  from update_metric_result[OF get_stats_simps(2) h1(1), of fp r]
  obtain d2 where d2: "update_metric fp ''radiation'' r d1 = Inr d2"
    "sample_count (radiation_stats d2) = sample_count (radiation_stats d1) + 1"
    "history d2 = (history d1)(''radiation'' \<mapsto> window (max_history_size d1) xr r)"
    "max_history_size d2 = max_history_size d1"
    "pressure_stats d2 = pressure_stats d1" "battery_stats d2 = battery_stats d1"
    "length (window (max_history_size d1) xr r) \<ge> 2 \<longrightarrow>
              mean (radiation_stats d2) = window_mean fp (window (max_history_size d1) xr r) \<and>
              std_dev (radiation_stats d2) = window_std fp (window (max_history_size d1) xr r)"
    by (auto simp: get_stats_simps)
  from d2(3) h1 have h2: "history d2 ''battery'' = Some xb"
    "history d2 ''pressure'' = Some (window ?m xp p)"
    "history d2 ''radiation'' = Some (window (max_history_size d1) xr r)"
    by simp_all
  from update_metric_result[OF get_stats_simps(3) h2(1), of fp b]
  obtain d3 where d3: "update_metric fp ''battery'' b d2 = Inr d3"
    "sample_count (battery_stats d3) = sample_count (battery_stats d2) + 1"
    "history d3 = (history d2)(''battery'' \<mapsto> window (max_history_size d2) xb b)"
    "max_history_size d3 = max_history_size d2"
    "pressure_stats d3 = pressure_stats d2" "radiation_stats d3 = radiation_stats d2"
    "length (window (max_history_size d2) xb b) \<ge> 2 \<longrightarrow>
              mean (battery_stats d3) = window_mean fp (window (max_history_size d2) xb b) \<and>
              std_dev (battery_stats d3) = window_std fp (window (max_history_size d2) xb b)"
    by (auto simp: get_stats_simps)
  from d3(3) h2 have h3: "history d3 ''pressure'' = Some (window ?m xp p)"
    "history d3 ''radiation'' = Some (window (max_history_size d1) xr r)"
    "history d3 ''battery'' = Some (window (max_history_size d2) xb b)"
    by simp_all
  have run: "detect_anomalies fp p r b (d, e) =
               Inr (fst (run_detectors fp d3 p r b e), d3, snd (run_detectors fp d3 p r b e))"
    using d1(1) d2(1) d3(1)
    by (simp add: detect_anomalies_def run_detectors_def Let_def split: prod.splits)
  show ?thesis
    apply (rule exI[of _ d3])
    using run h3 d1 d2 d3 apply simp
    done
qed

lemma run_detectors_quiet:
  assumes "sample_count (pressure_stats d) < 10" "sample_count (radiation_stats d) < 10"
          "sample_count (battery_stats d) < 10"
  shows "run_detectors fp d p r b e = ([], e)"
  using assms by (simp add: run_detectors_def detect_none_insufficient append_alert_def)

lemma window_no_evict: "length xs < m \<Longrightarrow> window m xs v = xs @ [v]"
  by (simp add: window_def)

lemma anomaly_run_quiet:
  assumes "history d ''pressure'' = Some xp" "history d ''radiation'' = Some xr"
          "history d ''battery'' = Some xb"
      and "sample_count (pressure_stats d) + int (length xs) < 10"
          "sample_count (radiation_stats d) + int (length xs) < 10"
          "sample_count (battery_stats d) + int (length xs) < 10"
      and "length xp + length xs \<le> max_history_size d"
          "length xr + length xs \<le> max_history_size d"
          "length xb + length xs \<le> max_history_size d"
  shows "\<exists>d'. anomaly_run fp xs (d, e) = Inr (replicate (length xs) [], d', e) \<and>
           history d' ''pressure'' = Some (xp @ map fst xs) \<and>
           history d' ''radiation'' = Some (xr @ map (fst \<circ> snd) xs) \<and>
           history d' ''battery'' = Some (xb @ map (snd \<circ> snd) xs) \<and>
           max_history_size d' = max_history_size d \<and>
           sample_count (pressure_stats d') = sample_count (pressure_stats d) + int (length xs) \<and>
           sample_count (radiation_stats d') = sample_count (radiation_stats d) + int (length xs) \<and>
           sample_count (battery_stats d') = sample_count (battery_stats d) + int (length xs)"
  using assms
proof (induction xs arbitrary: d xp xr xb)
  case Nil
  then show ?case by simp
next
  case (Cons x xs)
  obtain p r b where x: "x = (p, r, b)" by (cases x)
  from detect_anomalies_step[OF Cons.prems(1-3), of fp p r b e]
  obtain d1 where
    st: "detect_anomalies fp p r b (d, e) =
           Inr (fst (run_detectors fp d1 p r b e), d1, snd (run_detectors fp d1 p r b e))"
    and h: "history d1 ''pressure'' = Some (window (max_history_size d) xp p)"
           "history d1 ''radiation'' = Some (window (max_history_size d) xr r)"
           "history d1 ''battery'' = Some (window (max_history_size d) xb b)"
    and m: "max_history_size d1 = max_history_size d"
    and c: "sample_count (pressure_stats d1) = sample_count (pressure_stats d) + 1"
           "sample_count (radiation_stats d1) = sample_count (radiation_stats d) + 1"
           "sample_count (battery_stats d1) = sample_count (battery_stats d) + 1"
    by blast
  from Cons.prems(7-9) have w: "window (max_history_size d) xp p = xp @ [p]"
    "window (max_history_size d) xr r = xr @ [r]" "window (max_history_size d) xb b = xb @ [b]"
    by (simp_all add: window_no_evict)
  from c Cons.prems(4-6) have q: "run_detectors fp d1 p r b e = ([], e)"
    by (intro run_detectors_quiet) simp_all
  from st q have st': "detect_anomalies fp p r b (d, e) = Inr ([], d1, e)" by simp
  have "\<exists>d'. anomaly_run fp xs (d1, e) = Inr (replicate (length xs) [], d', e) \<and>
           history d' ''pressure'' = Some ((xp @ [p]) @ map fst xs) \<and>
           history d' ''radiation'' = Some ((xr @ [r]) @ map (fst \<circ> snd) xs) \<and>
           history d' ''battery'' = Some ((xb @ [b]) @ map (snd \<circ> snd) xs) \<and>
           max_history_size d' = max_history_size d1 \<and>
           sample_count (pressure_stats d') = sample_count (pressure_stats d1) + int (length xs) \<and>
           sample_count (radiation_stats d') = sample_count (radiation_stats d1) + int (length xs) \<and>
           sample_count (battery_stats d') = sample_count (battery_stats d1) + int (length xs)"
    using h w m c Cons.prems(4-9) by (intro Cons.IH) simp_all
  then obtain d' where r: "anomaly_run fp xs (d1, e) = Inr (replicate (length xs) [], d', e)"
    and r2: "history d' ''pressure'' = Some ((xp @ [p]) @ map fst xs)"
           "history d' ''radiation'' = Some ((xr @ [r]) @ map (fst \<circ> snd) xs)"
           "history d' ''battery'' = Some ((xb @ [b]) @ map (snd \<circ> snd) xs)"
           "max_history_size d' = max_history_size d1"
           "sample_count (pressure_stats d') = sample_count (pressure_stats d1) + int (length xs)"
           "sample_count (radiation_stats d') = sample_count (radiation_stats d1) + int (length xs)"
           "sample_count (battery_stats d') = sample_count (battery_stats d1) + int (length xs)"
    by blast
  show ?case
    apply (rule exI[of _ d'])
    using x st' r r2 m c apply simp
    done
qed

lemma anomaly_run_append:
  assumes "anomaly_run fp xs (d, e) = Inr (o1, d1, e1)"
  shows "anomaly_run fp (xs @ ys) (d, e) =
           (case anomaly_run fp ys (d1, e1) of
              Inl err \<Rightarrow> Inl err
            | Inr (o2, d2, e2) \<Rightarrow> Inr (o1 @ o2, d2, e2))"
  using assms
proof (induction xs arbitrary: d e o1)
  case Nil
  then show ?case by (auto split: sum.splits)
next
  case (Cons x xs)
  obtain p r b where x: "x = (p, r, b)" by (cases x)
  from Cons.prems x obtain al da ea o' where
    a: "detect_anomalies fp p r b (d, e) = Inr (al, da, ea)"
    and b: "anomaly_run fp xs (da, ea) = Inr (o', d1, e1)" and c: "o1 = al # o'"
    by (auto split: sum.splits)
  from Cons.IH[OF b] x a c show ?case
    by (auto split: sum.splits)
qed

lemma detect_anomalies_quiet:
  assumes "history d ''pressure'' \<noteq> None" "history d ''radiation'' \<noteq> None"
          "history d ''battery'' \<noteq> None"
      and "sample_count (pressure_stats d) < 9" "sample_count (radiation_stats d) < 9"
          "sample_count (battery_stats d) < 9"
  shows "\<exists>d'. detect_anomalies fp p r b (d, e) = Inr ([], d', e)"
proof -
  from assms obtain xp xr xb where h: "history d ''pressure'' = Some xp"
    "history d ''radiation'' = Some xr" "history d ''battery'' = Some xb" by auto
  from detect_anomalies_step[OF h, of fp p r b e] obtain d1 where
    st: "detect_anomalies fp p r b (d, e) =
           Inr (fst (run_detectors fp d1 p r b e), d1, snd (run_detectors fp d1 p r b e))"
    and c: "sample_count (pressure_stats d1) = sample_count (pressure_stats d) + 1"
           "sample_count (radiation_stats d1) = sample_count (radiation_stats d) + 1"
           "sample_count (battery_stats d1) = sample_count (battery_stats d) + 1"
    by blast
  from c assms(4-6) have "run_detectors fp d1 p r b e = ([], e)"
    by (intro run_detectors_quiet) simp_all
  with st show ?thesis by simp
qed

lemmas ad_defs = detect_anomalies_def update_metric_def get_stats_def put_stats_def
  AnomalyDetector_init_def MetricStatistics_init_def py_min_def py_max_def EWMA_ALPHA_def
  detect_pressure_anomaly_def detect_radiation_anomaly_def detect_battery_anomaly_def
  append_alert_def Let_def fp_exact_def fdiv0_def

text \<open>
  Claim C5. For each of the three metrics, every sample value and every floating-point
  arithmetic, the detector returns \<open>None\<close> (no alert, and the world untouched) when the
  metric's \<open>sample_count\<close> is below \<open>10\<close> or its \<open>std_dev\<close> is \<open>0\<close>. In the pipeline: on a
  detector whose history holds the three metrics and whose counters are below \<open>9\<close> before
  the call, \<open>detect_anomalies\<close> returns normally with the empty list of alerts, whatever
  the three values are.
\<close>

theorem C5_no_alert_without_evidence:
  "(sample_count stats < 10 \<or> std_dev stats = 0 \<longrightarrow>
      detect_pressure_anomaly fp stats v e = (None, e) \<and>
      detect_radiation_anomaly fp stats v e = (None, e) \<and>
      detect_battery_anomaly fp stats v e = (None, e))
   \<and> (history d ''pressure'' \<noteq> None \<and> history d ''radiation'' \<noteq> None \<and>
       history d ''battery'' \<noteq> None \<and> sample_count (pressure_stats d) < 9 \<and>
       sample_count (radiation_stats d) < 9 \<and> sample_count (battery_stats d) < 9 \<longrightarrow>
       (\<exists>d'. detect_anomalies fp p r b (d, e) = Inr ([], d', e)))"
  using detect_none_insufficient [of stats fp v e] detect_anomalies_quiet [of d fp p r b e]
  by blast

theorem C5_no_alert_without_evidence_witness:
  "detect_pressure_anomaly fp_exact
      (MetricStatistics_init\<lparr>mean := 100, std_dev := 0.001, sample_count := 9\<rparr>)
      1000000 env0 = (None, env0) \<and>
   detect_radiation_anomaly fp_exact
      (MetricStatistics_init\<lparr>mean := 100, std_dev := 0, sample_count := 50\<rparr>)
      1000000 env0 = (None, env0) \<and>
   (\<exists>d'. detect_anomalies fp_exact 1000000 1000000 1000000 (AnomalyDetector_init, env0)
           = Inr ([], d', env0))"
  using C5_no_alert_without_evidence
          [of "MetricStatistics_init\<lparr>mean := 100, std_dev := 0.001, sample_count := 9\<rparr>"
              fp_exact 1000000 env0 AnomalyDetector_init 1000000 1000000 1000000]
        C5_no_alert_without_evidence
          [of "MetricStatistics_init\<lparr>mean := 100, std_dev := 0, sample_count := 50\<rparr>"
              fp_exact 1000000 env0 AnomalyDetector_init 1000000 1000000 1000000]
  by (simp add: AnomalyDetector_init_def MetricStatistics_init_def)

text \<open>
  Claim C6. The radiation detector returns no alert when the z-score it computes is
  \<open>\<le> 0\<close>, whatever its magnitude; an alert it does return has a positive z-score.
  The pressure and battery detectors return an alert whenever there are at least \<open>10\<close>
  samples, a positive \<open>std_dev\<close> and \<open>|z| \<ge> 2.5\<close>, for positive and negative \<open>z\<close> alike.
  The z-score is the one the code computes, in any floating-point arithmetic.
\<close>

theorem C6_radiation_only_positive_z:
  "((if std_dev stats > 0 then fdiv0 fp (fsub fp v (mean stats)) (std_dev stats) else 0) \<le> 0 \<longrightarrow>
      detect_radiation_anomaly fp stats v e = (None, e))
   \<and> (\<forall>a e'. detect_radiation_anomaly fp stats v e = (Some a, e') \<longrightarrow> aa_z_score a > 0)
   \<and> (sample_count stats \<ge> 10 \<and> std_dev stats > 0 \<and>
       \<bar>fdiv0 fp (fsub fp v (mean stats)) (std_dev stats)\<bar> \<ge> 2.5 \<longrightarrow>
         fst (detect_pressure_anomaly fp stats v e) \<noteq> None \<and>
         fst (detect_battery_anomaly fp stats v e) \<noteq> None)"
proof (intro conjI impI allI)
  assume "(if std_dev stats > 0 then fdiv0 fp (fsub fp v (mean stats)) (std_dev stats) else 0) \<le> 0"
  then show "detect_radiation_anomaly fp stats v e = (None, e)"
    by (simp add: detect_radiation_unfold split: if_splits)
next
  fix a e' assume "detect_radiation_anomaly fp stats v e = (Some a, e')"
  from detect_radiation_Some[OF this] show "aa_z_score a > 0" by simp
next
  assume h: "sample_count stats \<ge> 10 \<and> std_dev stats > 0 \<and>
       \<bar>fdiv0 fp (fsub fp v (mean stats)) (std_dev stats)\<bar> \<ge> 2.5"
  then have "\<not> \<bar>fdiv0 fp (fsub fp v (mean stats)) (std_dev stats)\<bar> < 2.5"
    by linarith
  then have "spec_classify fp (fdiv0 fp (fsub fp v (mean stats)) (std_dev stats)) \<noteq> None"
    by (simp only: spec_classify_None not_False_eq_True)
  then obtain sev conf where
    "spec_classify fp (fdiv0 fp (fsub fp v (mean stats)) (std_dev stats)) = Some (sev, conf)"
    by (cases "spec_classify fp (fdiv0 fp (fsub fp v (mean stats)) (std_dev stats))") auto
  with h show "fst (detect_pressure_anomaly fp stats v e) \<noteq> None"
    and "fst (detect_battery_anomaly fp stats v e) \<noteq> None"
    by (simp_all add: detect_pressure_unfold detect_battery_unfold mk_anomaly_eq)
qed

theorem C6_radiation_only_positive_z_witness:
  "detect_radiation_anomaly fp_exact
      (MetricStatistics_init\<lparr>mean := 100, std_dev := 2, sample_count := 10\<rparr>)
      90 env0 = (None, env0) \<and>
   fst (detect_pressure_anomaly fp_exact
      (MetricStatistics_init\<lparr>mean := 100, std_dev := 2, sample_count := 10\<rparr>)
      90 env0) \<noteq> None \<and>
   fst (detect_battery_anomaly fp_exact
      (MetricStatistics_init\<lparr>mean := 100, std_dev := 2, sample_count := 10\<rparr>)
      90 env0) \<noteq> None"
  using C6_radiation_only_positive_z
          [of "MetricStatistics_init\<lparr>mean := 100, std_dev := 2, sample_count := 10\<rparr>"
              fp_exact 90 env0]
  by (simp add: MetricStatistics_init_def fp_exact_def fdiv0_def)

lemma scenario_run:
  assumes "map fst xs = replicate 9 101.325 @ [110.0]"
  shows "\<exists>d'. anomaly_run fp xs (AnomalyDetector_init, e) =
             Inr (replicate 9 [] @
                    [fst (run_detectors fp d' 110.0 (fst (snd (last xs))) (snd (snd (last xs))) e)],
                  d',
                  snd (run_detectors fp d' 110.0 (fst (snd (last xs))) (snd (snd (last xs))) e)) \<and>
           history d' ''pressure'' = Some (replicate 9 101.325 @ [110.0]) \<and>
           sample_count (pressure_stats d') = 10 \<and>
           mean (pressure_stats d') = window_mean fp (replicate 9 101.325 @ [110.0]) \<and>
           std_dev (pressure_stats d') = window_std fp (replicate 9 101.325 @ [110.0])"
proof -
  have "length (map fst xs) = 10" unfolding assms by simp
  then have len: "length xs = 10" by simp
  then have ne: "xs \<noteq> []" by auto
  define xs9 where "xs9 = butlast xs"
  obtain p r b where x10: "last xs = (p, r, b)" by (cases "last xs")
  from ne have split: "xs = xs9 @ [(p, r, b)]"
    unfolding xs9_def using x10 by (metis append_butlast_last_id)
  from len split have l9: "length xs9 = 9" by simp
  from assms split l9 have m9: "map fst xs9 = replicate 9 101.325" and p10: "p = 110.0"
    by simp_all
  have init: "history AnomalyDetector_init ''pressure'' = Some []"
    "history AnomalyDetector_init ''radiation'' = Some []"
    "history AnomalyDetector_init ''battery'' = Some []"
    "sample_count (pressure_stats AnomalyDetector_init) = 0"
    "sample_count (radiation_stats AnomalyDetector_init) = 0"
    "sample_count (battery_stats AnomalyDetector_init) = 0"
    "max_history_size AnomalyDetector_init = 100"
    by (simp_all add: AnomalyDetector_init_def MetricStatistics_init_def)
  have "\<exists>d9. anomaly_run fp xs9 (AnomalyDetector_init, e) = Inr (replicate 9 [], d9, e) \<and>
      history d9 ''pressure'' = Some (map fst xs9) \<and>
      history d9 ''radiation'' = Some (map (fst \<circ> snd) xs9) \<and>
      history d9 ''battery'' = Some (map (snd \<circ> snd) xs9) \<and>
      max_history_size d9 = 100 \<and> sample_count (pressure_stats d9) = 9"
    using anomaly_run_quiet[OF init(1-3), of xs9 fp e] init(4-7) l9 by simp blast
  then obtain d9 where
    q: "anomaly_run fp xs9 (AnomalyDetector_init, e) = Inr (replicate 9 [], d9, e)"
    and h9: "history d9 ''pressure'' = Some (map fst xs9)"
            "history d9 ''radiation'' = Some (map (fst \<circ> snd) xs9)"
            "history d9 ''battery'' = Some (map (snd \<circ> snd) xs9)"
    and m: "max_history_size d9 = 100"
    and c9: "sample_count (pressure_stats d9) = 9"
    by blast
  from detect_anomalies_step[OF h9, of fp p r b e]
  obtain d' where
    st: "detect_anomalies fp p r b (d9, e) =
           Inr (fst (run_detectors fp d' p r b e), d', snd (run_detectors fp d' p r b e))"
    and h: "history d' ''pressure'' = Some (window (max_history_size d9) (map fst xs9) p)"
    and c: "sample_count (pressure_stats d') = sample_count (pressure_stats d9) + 1"
    and ms: "length (window (max_history_size d9) (map fst xs9) p) \<ge> 2 \<longrightarrow>
              mean (pressure_stats d') = window_mean fp (window (max_history_size d9) (map fst xs9) p) \<and>
              std_dev (pressure_stats d') = window_std fp (window (max_history_size d9) (map fst xs9) p)"
    by blast
  have w: "window (max_history_size d9) (map fst xs9) p = replicate 9 101.325 @ [110.0]"
    using m l9 m9 p10 by (simp add: window_no_evict)
  have run: "anomaly_run fp xs (AnomalyDetector_init, e) =
             Inr (replicate 9 [] @ [fst (run_detectors fp d' p r b e)], d',
                  snd (run_detectors fp d' p r b e))"
    unfolding split using anomaly_run_append[OF q, of "[(p, r, b)]"] st by simp
  show ?thesis
    apply (rule exI[of _ d'])
    using run h c c9 ms w x10 p10 apply simp
    done
qed

lemma z_score_of_pos: "std_dev stats > 0 \<Longrightarrow>
    z_score_of fp stats v = fdiv0 fp (fsub fp v (mean stats)) (std_dev stats)"
  by (simp add: z_score_of_def)

text \<open>
  Claim C9. In every floating-point arithmetic: an alert returned by any of the three
  detectors carries the z-score the detector computed, \<open>(value - mean) / std_dev\<close>, and its
  severity and confidence are those of the severity table at that z-score. Conversely,
  with at least \<open>10\<close> samples and a positive \<open>std_dev\<close>, the pressure and the battery
  detector return a CRITICAL alert with confidence \<open>min(0.99, 0.7 + (|z| - 3.5) * 0.1)\<close>
  when \<open>|z| \<ge> 3.5\<close>, and a WARNING alert with confidence
  \<open>min(0.95, 0.5 + (|z| - 2.5) * 0.15)\<close> when \<open>2.5 \<le> |z| < 3.5\<close>; the radiation
  detector does so when moreover \<open>z > 0\<close>. For \<open>|z| < 2.5\<close> no detector returns an alert.
  \<open>update_metric\<close> recomputes \<open>mean\<close> and \<open>std_dev\<close> over the window that ends with the
  new sample, and \<open>detect_anomalies\<close> runs the three detectors on the statistics so
  updated, for pressure, radiation and battery alike. In a run of nine pressure samples
  \<open>101.325\<close> followed by \<open>110.0\<close>, the first nine cycles are silent and the tenth is
  classified from the \<open>mean\<close> and \<open>std_dev\<close> of the ten-sample window.
\<close>

theorem C9_severity_from_z:
  "(\<forall>a e'. detect_pressure_anomaly fp stats v e = (Some a, e') \<longrightarrow>
       aa_z_score a = z_score_of fp stats v \<and>
       spec_classify fp (aa_z_score a) = Some (aa_severity a, aa_confidence a))
   \<and> (\<forall>a e'. detect_radiation_anomaly fp stats v e = (Some a, e') \<longrightarrow>
       aa_z_score a = z_score_of fp stats v \<and>
       spec_classify fp (aa_z_score a) = Some (aa_severity a, aa_confidence a))
   \<and> (\<forall>a e'. detect_battery_anomaly fp stats v e = (Some a, e') \<longrightarrow>
       aa_z_score a = z_score_of fp stats v \<and>
       spec_classify fp (aa_z_score a) = Some (aa_severity a, aa_confidence a))
   \<and> (sample_count stats \<ge> 10 \<and> std_dev stats > 0 \<and> \<bar>z_score_of fp stats v\<bar> \<ge> 3.5 \<longrightarrow>
        alert_with (detect_pressure_anomaly fp stats v e) ''pressure'' CRITICAL v
          (z_score_of fp stats v)
          (min (flit fp 0.99)
             (fadd fp (flit fp 0.7) (fmul fp (fsub fp \<bar>z_score_of fp stats v\<bar> 3.5) (flit fp 0.1)))) \<and>
        alert_with (detect_battery_anomaly fp stats v e) ''battery'' CRITICAL v
          (z_score_of fp stats v)
          (min (flit fp 0.99)
             (fadd fp (flit fp 0.7) (fmul fp (fsub fp \<bar>z_score_of fp stats v\<bar> 3.5) (flit fp 0.1)))) \<and>
        (z_score_of fp stats v > 0 \<longrightarrow>
           alert_with (detect_radiation_anomaly fp stats v e) ''radiation'' CRITICAL v
             (z_score_of fp stats v)
             (min (flit fp 0.99)
                (fadd fp (flit fp 0.7)
                   (fmul fp (fsub fp \<bar>z_score_of fp stats v\<bar> 3.5) (flit fp 0.1))))))
   \<and> (sample_count stats \<ge> 10 \<and> std_dev stats > 0 \<and>
       \<bar>z_score_of fp stats v\<bar> \<ge> 2.5 \<and> \<bar>z_score_of fp stats v\<bar> < 3.5 \<longrightarrow>
        alert_with (detect_pressure_anomaly fp stats v e) ''pressure'' WARNING v
          (z_score_of fp stats v)
          (min (flit fp 0.95)
             (fadd fp 0.5 (fmul fp (fsub fp \<bar>z_score_of fp stats v\<bar> 2.5) (flit fp 0.15)))) \<and>
        alert_with (detect_battery_anomaly fp stats v e) ''battery'' WARNING v
          (z_score_of fp stats v)
          (min (flit fp 0.95)
             (fadd fp 0.5 (fmul fp (fsub fp \<bar>z_score_of fp stats v\<bar> 2.5) (flit fp 0.15)))) \<and>
        (z_score_of fp stats v > 0 \<longrightarrow>
           alert_with (detect_radiation_anomaly fp stats v e) ''radiation'' WARNING v
             (z_score_of fp stats v)
             (min (flit fp 0.95)
                (fadd fp 0.5 (fmul fp (fsub fp \<bar>z_score_of fp stats v\<bar> 2.5) (flit fp 0.15))))))
   \<and> (\<bar>z_score_of fp stats v\<bar> < 2.5 \<longrightarrow>
       detect_pressure_anomaly fp stats v e = (None, e) \<and>
       detect_radiation_anomaly fp stats v e = (None, e) \<and>
       detect_battery_anomaly fp stats v e = (None, e))
   \<and> (get_stats d n = Inr st \<and> history d n = Some xs \<and>
       length (window (max_history_size d) xs v) \<ge> 2 \<longrightarrow>
       (\<exists>d' st'. update_metric fp n v d = Inr d' \<and> get_stats d' n = Inr st' \<and>
          history d' n = Some (window (max_history_size d) xs v) \<and>
          last (window (max_history_size d) xs v) = v \<and>
          mean st' = window_mean fp (window (max_history_size d) xs v) \<and>
          std_dev st' = window_std fp (window (max_history_size d) xs v)))
   \<and> (history d ''pressure'' = Some xp \<and> history d ''radiation'' = Some xr \<and>
       history d ''battery'' = Some xb \<longrightarrow>
       (\<exists>d'. detect_anomalies fp p r b (d, e) =
               Inr (fst (run_detectors fp d' p r b e), d', snd (run_detectors fp d' p r b e)) \<and>
          history d' ''pressure'' = Some (window (max_history_size d) xp p) \<and>
          history d' ''radiation'' = Some (window (max_history_size d) xr r) \<and>
          history d' ''battery'' = Some (window (max_history_size d) xb b) \<and>
          (length (window (max_history_size d) xp p) \<ge> 2 \<longrightarrow>
             mean (pressure_stats d') = window_mean fp (window (max_history_size d) xp p) \<and>
             std_dev (pressure_stats d') = window_std fp (window (max_history_size d) xp p)) \<and>
          (length (window (max_history_size d) xr r) \<ge> 2 \<longrightarrow>
             mean (radiation_stats d') = window_mean fp (window (max_history_size d) xr r) \<and>
             std_dev (radiation_stats d') = window_std fp (window (max_history_size d) xr r)) \<and>
          (length (window (max_history_size d) xb b) \<ge> 2 \<longrightarrow>
             mean (battery_stats d') = window_mean fp (window (max_history_size d) xb b) \<and>
             std_dev (battery_stats d') = window_std fp (window (max_history_size d) xb b))))
   \<and> (map fst samples = replicate 9 101.325 @ [110.0] \<longrightarrow>
       (\<exists>d'. anomaly_run fp samples (AnomalyDetector_init, e) =
             Inr (replicate 9 [] @
                    [fst (run_detectors fp d' 110.0 (fst (snd (last samples)))
                            (snd (snd (last samples))) e)],
                  d',
                  snd (run_detectors fp d' 110.0 (fst (snd (last samples)))
                         (snd (snd (last samples))) e)) \<and>
           history d' ''pressure'' = Some (replicate 9 101.325 @ [110.0]) \<and>
           sample_count (pressure_stats d') = 10 \<and>
           mean (pressure_stats d') = window_mean fp (replicate 9 101.325 @ [110.0]) \<and>
           std_dev (pressure_stats d') = window_std fp (replicate 9 101.325 @ [110.0])))"
proof (intro conjI)
  show "\<forall>a e'. detect_pressure_anomaly fp stats v e = (Some a, e') \<longrightarrow>
       aa_z_score a = z_score_of fp stats v \<and>
       spec_classify fp (aa_z_score a) = Some (aa_severity a, aa_confidence a)"
    using detect_pressure_Some[of fp stats v e] by (simp add: z_score_of_pos)
  show "\<forall>a e'. detect_radiation_anomaly fp stats v e = (Some a, e') \<longrightarrow>
       aa_z_score a = z_score_of fp stats v \<and>
       spec_classify fp (aa_z_score a) = Some (aa_severity a, aa_confidence a)"
    using detect_radiation_Some[of fp stats v e] by (simp add: z_score_of_pos)
  show "\<forall>a e'. detect_battery_anomaly fp stats v e = (Some a, e') \<longrightarrow>
       aa_z_score a = z_score_of fp stats v \<and>
       spec_classify fp (aa_z_score a) = Some (aa_severity a, aa_confidence a)"
    using detect_battery_Some[of fp stats v e] by (simp add: z_score_of_pos)
  show "sample_count stats \<ge> 10 \<and> std_dev stats > 0 \<and> \<bar>z_score_of fp stats v\<bar> \<ge> 3.5 \<longrightarrow>
        alert_with (detect_pressure_anomaly fp stats v e) ''pressure'' CRITICAL v
          (z_score_of fp stats v)
          (min (flit fp 0.99)
             (fadd fp (flit fp 0.7) (fmul fp (fsub fp \<bar>z_score_of fp stats v\<bar> 3.5) (flit fp 0.1)))) \<and>
        alert_with (detect_battery_anomaly fp stats v e) ''battery'' CRITICAL v
          (z_score_of fp stats v)
          (min (flit fp 0.99)
             (fadd fp (flit fp 0.7) (fmul fp (fsub fp \<bar>z_score_of fp stats v\<bar> 3.5) (flit fp 0.1)))) \<and>
        (z_score_of fp stats v > 0 \<longrightarrow>
           alert_with (detect_radiation_anomaly fp stats v e) ''radiation'' CRITICAL v
             (z_score_of fp stats v)
             (min (flit fp 0.99)
                (fadd fp (flit fp 0.7)
                   (fmul fp (fsub fp \<bar>z_score_of fp stats v\<bar> 3.5) (flit fp 0.1)))))"
  proof (intro impI, elim conjE)
    assume h: "sample_count stats \<ge> 10" "std_dev stats > 0" "\<bar>z_score_of fp stats v\<bar> \<ge> 3.5"
    note z = z_score_of_pos[OF h(2), of fp v]
    note c = spec_classify_critical[OF h(3), of fp]
    show "alert_with (detect_pressure_anomaly fp stats v e) ''pressure'' CRITICAL v
          (z_score_of fp stats v)
          (min (flit fp 0.99)
             (fadd fp (flit fp 0.7) (fmul fp (fsub fp \<bar>z_score_of fp stats v\<bar> 3.5) (flit fp 0.1)))) \<and>
        alert_with (detect_battery_anomaly fp stats v e) ''battery'' CRITICAL v
          (z_score_of fp stats v)
          (min (flit fp 0.99)
             (fadd fp (flit fp 0.7) (fmul fp (fsub fp \<bar>z_score_of fp stats v\<bar> 3.5) (flit fp 0.1)))) \<and>
        (z_score_of fp stats v > 0 \<longrightarrow>
           alert_with (detect_radiation_anomaly fp stats v e) ''radiation'' CRITICAL v
             (z_score_of fp stats v)
             (min (flit fp 0.99)
                (fadd fp (flit fp 0.7)
                   (fmul fp (fsub fp \<bar>z_score_of fp stats v\<bar> 3.5) (flit fp 0.1)))))"
      using detect_pressure_emits[OF h(1,2) c[unfolded z], of e]
            detect_battery_emits[OF h(1,2) c[unfolded z], of e]
            detect_radiation_emits[OF h(1,2) _ c[unfolded z], of e]
      unfolding z by blast
  qed
  show "sample_count stats \<ge> 10 \<and> std_dev stats > 0 \<and>
       \<bar>z_score_of fp stats v\<bar> \<ge> 2.5 \<and> \<bar>z_score_of fp stats v\<bar> < 3.5 \<longrightarrow>
        alert_with (detect_pressure_anomaly fp stats v e) ''pressure'' WARNING v
          (z_score_of fp stats v)
          (min (flit fp 0.95)
             (fadd fp 0.5 (fmul fp (fsub fp \<bar>z_score_of fp stats v\<bar> 2.5) (flit fp 0.15)))) \<and>
        alert_with (detect_battery_anomaly fp stats v e) ''battery'' WARNING v
          (z_score_of fp stats v)
          (min (flit fp 0.95)
             (fadd fp 0.5 (fmul fp (fsub fp \<bar>z_score_of fp stats v\<bar> 2.5) (flit fp 0.15)))) \<and>
        (z_score_of fp stats v > 0 \<longrightarrow>
           alert_with (detect_radiation_anomaly fp stats v e) ''radiation'' WARNING v
             (z_score_of fp stats v)
             (min (flit fp 0.95)
                (fadd fp 0.5 (fmul fp (fsub fp \<bar>z_score_of fp stats v\<bar> 2.5) (flit fp 0.15)))))"
  proof (intro impI, elim conjE)
    assume h: "sample_count stats \<ge> 10" "std_dev stats > 0"
      "\<bar>z_score_of fp stats v\<bar> \<ge> 2.5" "\<bar>z_score_of fp stats v\<bar> < 3.5"
    note z = z_score_of_pos[OF h(2), of fp v]
    note c = spec_classify_warning[OF h(3,4), of fp]
    show "alert_with (detect_pressure_anomaly fp stats v e) ''pressure'' WARNING v
          (z_score_of fp stats v)
          (min (flit fp 0.95)
             (fadd fp 0.5 (fmul fp (fsub fp \<bar>z_score_of fp stats v\<bar> 2.5) (flit fp 0.15)))) \<and>
        alert_with (detect_battery_anomaly fp stats v e) ''battery'' WARNING v
          (z_score_of fp stats v)
          (min (flit fp 0.95)
             (fadd fp 0.5 (fmul fp (fsub fp \<bar>z_score_of fp stats v\<bar> 2.5) (flit fp 0.15)))) \<and>
        (z_score_of fp stats v > 0 \<longrightarrow>
           alert_with (detect_radiation_anomaly fp stats v e) ''radiation'' WARNING v
             (z_score_of fp stats v)
             (min (flit fp 0.95)
                (fadd fp 0.5 (fmul fp (fsub fp \<bar>z_score_of fp stats v\<bar> 2.5) (flit fp 0.15)))))"
      using detect_pressure_emits[OF h(1,2) c[unfolded z], of e]
            detect_battery_emits[OF h(1,2) c[unfolded z], of e]
            detect_radiation_emits[OF h(1,2) _ c[unfolded z], of e]
      unfolding z by blast
  qed
  show "\<bar>z_score_of fp stats v\<bar> < 2.5 \<longrightarrow>
       detect_pressure_anomaly fp stats v e = (None, e) \<and>
       detect_radiation_anomaly fp stats v e = (None, e) \<and>
       detect_battery_anomaly fp stats v e = (None, e)"
  proof (cases "std_dev stats > 0")
    case True
    show ?thesis
      unfolding z_score_of_pos[OF True]
      using detect_none_low_z[of fp v stats e] by (simp only: spec_classify_None) blast
  next
    case False
    then show ?thesis
      by (simp add: detect_pressure_unfold detect_radiation_unfold detect_battery_unfold)
  qed
  show "get_stats d n = Inr st \<and> history d n = Some xs \<and>
       length (window (max_history_size d) xs v) \<ge> 2 \<longrightarrow>
       (\<exists>d' st'. update_metric fp n v d = Inr d' \<and> get_stats d' n = Inr st' \<and>
          history d' n = Some (window (max_history_size d) xs v) \<and>
          last (window (max_history_size d) xs v) = v \<and>
          mean st' = window_mean fp (window (max_history_size d) xs v) \<and>
          std_dev st' = window_std fp (window (max_history_size d) xs v))"
  proof (intro impI, elim conjE)
    assume g: "get_stats d n = Inr st" and hs: "history d n = Some xs"
      and l: "length (window (max_history_size d) xs v) \<ge> 2"
    from update_metric_result[OF g hs, of fp v] l window_last[OF l]
    show "\<exists>d' st'. update_metric fp n v d = Inr d' \<and> get_stats d' n = Inr st' \<and>
          history d' n = Some (window (max_history_size d) xs v) \<and>
          last (window (max_history_size d) xs v) = v \<and>
          mean st' = window_mean fp (window (max_history_size d) xs v) \<and>
          std_dev st' = window_std fp (window (max_history_size d) xs v)"
      by fastforce
  qed
  show "history d ''pressure'' = Some xp \<and> history d ''radiation'' = Some xr \<and>
       history d ''battery'' = Some xb \<longrightarrow>
       (\<exists>d'. detect_anomalies fp p r b (d, e) =
               Inr (fst (run_detectors fp d' p r b e), d', snd (run_detectors fp d' p r b e)) \<and>
          history d' ''pressure'' = Some (window (max_history_size d) xp p) \<and>
          history d' ''radiation'' = Some (window (max_history_size d) xr r) \<and>
          history d' ''battery'' = Some (window (max_history_size d) xb b) \<and>
          (length (window (max_history_size d) xp p) \<ge> 2 \<longrightarrow>
             mean (pressure_stats d') = window_mean fp (window (max_history_size d) xp p) \<and>
             std_dev (pressure_stats d') = window_std fp (window (max_history_size d) xp p)) \<and>
          (length (window (max_history_size d) xr r) \<ge> 2 \<longrightarrow>
             mean (radiation_stats d') = window_mean fp (window (max_history_size d) xr r) \<and>
             std_dev (radiation_stats d') = window_std fp (window (max_history_size d) xr r)) \<and>
          (length (window (max_history_size d) xb b) \<ge> 2 \<longrightarrow>
             mean (battery_stats d') = window_mean fp (window (max_history_size d) xb b) \<and>
             std_dev (battery_stats d') = window_std fp (window (max_history_size d) xb b)))"
  proof (intro impI, elim conjE)
    assume h: "history d ''pressure'' = Some xp" "history d ''radiation'' = Some xr"
      "history d ''battery'' = Some xb"
    from detect_anomalies_step[OF h, of fp p r b e] obtain d' where
      f: "detect_anomalies fp p r b (d, e) =
               Inr (fst (run_detectors fp d' p r b e), d', snd (run_detectors fp d' p r b e)) \<and>
           history d' ''pressure'' = Some (window (max_history_size d) xp p) \<and>
           history d' ''radiation'' = Some (window (max_history_size d) xr r) \<and>
           history d' ''battery'' = Some (window (max_history_size d) xb b) \<and>
           max_history_size d' = max_history_size d \<and>
           sample_count (pressure_stats d') = sample_count (pressure_stats d) + 1 \<and>
           sample_count (radiation_stats d') = sample_count (radiation_stats d) + 1 \<and>
           sample_count (battery_stats d') = sample_count (battery_stats d) + 1 \<and>
           (length (window (max_history_size d) xp p) \<ge> 2 \<longrightarrow>
              mean (pressure_stats d') = window_mean fp (window (max_history_size d) xp p) \<and>
              std_dev (pressure_stats d') = window_std fp (window (max_history_size d) xp p)) \<and>
           (length (window (max_history_size d) xr r) \<ge> 2 \<longrightarrow>
              mean (radiation_stats d') = window_mean fp (window (max_history_size d) xr r) \<and>
              std_dev (radiation_stats d') = window_std fp (window (max_history_size d) xr r)) \<and>
           (length (window (max_history_size d) xb b) \<ge> 2 \<longrightarrow>
              mean (battery_stats d') = window_mean fp (window (max_history_size d) xb b) \<and>
              std_dev (battery_stats d') = window_std fp (window (max_history_size d) xb b))"
      by blast
    show "\<exists>d'. detect_anomalies fp p r b (d, e) =
               Inr (fst (run_detectors fp d' p r b e), d', snd (run_detectors fp d' p r b e)) \<and>
          history d' ''pressure'' = Some (window (max_history_size d) xp p) \<and>
          history d' ''radiation'' = Some (window (max_history_size d) xr r) \<and>
          history d' ''battery'' = Some (window (max_history_size d) xb b) \<and>
          (length (window (max_history_size d) xp p) \<ge> 2 \<longrightarrow>
             mean (pressure_stats d') = window_mean fp (window (max_history_size d) xp p) \<and>
             std_dev (pressure_stats d') = window_std fp (window (max_history_size d) xp p)) \<and>
          (length (window (max_history_size d) xr r) \<ge> 2 \<longrightarrow>
             mean (radiation_stats d') = window_mean fp (window (max_history_size d) xr r) \<and>
             std_dev (radiation_stats d') = window_std fp (window (max_history_size d) xr r)) \<and>
          (length (window (max_history_size d) xb b) \<ge> 2 \<longrightarrow>
             mean (battery_stats d') = window_mean fp (window (max_history_size d) xb b) \<and>
             std_dev (battery_stats d') = window_std fp (window (max_history_size d) xb b))"
      by (rule exI[of _ d']) (use f in simp)
  qed
  show "map fst samples = replicate 9 101.325 @ [110.0] \<longrightarrow>
       (\<exists>d'. anomaly_run fp samples (AnomalyDetector_init, e) =
             Inr (replicate 9 [] @
                    [fst (run_detectors fp d' 110.0 (fst (snd (last samples)))
                            (snd (snd (last samples))) e)],
                  d',
                  snd (run_detectors fp d' 110.0 (fst (snd (last samples)))
                         (snd (snd (last samples))) e)) \<and>
           history d' ''pressure'' = Some (replicate 9 101.325 @ [110.0]) \<and>
           sample_count (pressure_stats d') = 10 \<and>
           mean (pressure_stats d') = window_mean fp (replicate 9 101.325 @ [110.0]) \<and>
           std_dev (pressure_stats d') = window_std fp (replicate 9 101.325 @ [110.0]))"
    using scenario_run[of samples fp e] by blast
qed

theorem C9_severity_from_z_witness:
  "alert_with (detect_pressure_anomaly fp_exact
      (MetricStatistics_init\<lparr>mean := 100, std_dev := 2, sample_count := 10\<rparr>) 107 env0)
      ''pressure'' CRITICAL 107 3.5 0.7 \<and>
   alert_with (detect_radiation_anomaly fp_exact
      (MetricStatistics_init\<lparr>mean := 100, std_dev := 2, sample_count := 10\<rparr>) 105 env0)
      ''radiation'' WARNING 105 2.5 0.5 \<and>
   detect_battery_anomaly fp_exact
      (MetricStatistics_init\<lparr>mean := 100, std_dev := 2, sample_count := 10\<rparr>) 104 env0
     = (None, env0) \<and>
   (\<exists>d'. update_metric fp_exact ''pressure'' 3
           (AnomalyDetector_init\<lparr>history := (history AnomalyDetector_init)(''pressure'' \<mapsto> [1])\<rparr>)
         = Inr d' \<and> mean (pressure_stats d') = 2 \<and> std_dev (pressure_stats d') = 1) \<and>
   (\<exists>d' out e'. anomaly_run fp_exact
           [(101.325, 0.02, 500), (101.325, 0.02, 500), (101.325, 0.02, 500),
            (101.325, 0.02, 500), (101.325, 0.02, 500), (101.325, 0.02, 500),
            (101.325, 0.02, 500), (101.325, 0.02, 500), (101.325, 0.02, 500),
            (110.0, 0.02, 500)] (AnomalyDetector_init, env0)
         = Inr ([[], [], [], [], [], [], [], [], [], out], d', e') \<and>
         sample_count (pressure_stats d') = 10)"
proof -
  let ?st = "MetricStatistics_init\<lparr>mean := 100, std_dev := 2, sample_count := 10\<rparr>"
  let ?d = "AnomalyDetector_init\<lparr>history := (history AnomalyDetector_init)(''pressure'' \<mapsto> [1])\<rparr>"
  let ?xs = "[(101.325, 0.02, 500), (101.325, 0.02, 500), (101.325, 0.02, 500),
            (101.325, 0.02, 500), (101.325, 0.02, 500), (101.325, 0.02, 500),
            (101.325, 0.02, 500), (101.325, 0.02, 500), (101.325, 0.02, 500),
            (110.0, 0.02, 500)] :: (real \<times> real \<times> real) list"
  have z: "z_score_of fp_exact ?st 107 = 3.5" "z_score_of fp_exact ?st 105 = 2.5"
    "z_score_of fp_exact ?st 104 = 2"
    by (simp_all add: z_score_of_def MetricStatistics_init_def fp_exact_def fdiv0_def)
  have ex: "flit fp_exact = (\<lambda>x. x)" "fadd fp_exact = (+)" "fsub fp_exact = (-)"
    "fmul fp_exact = (*)"
    by (simp_all add: fp_exact_def)
  have st: "sample_count ?st \<ge> 10" "std_dev ?st > 0"
    by (simp_all add: MetricStatistics_init_def)
  have m: "map fst ?xs = replicate 9 101.325 @ [110.0]"
    by (simp add: eval_nat_numeral)
  note t1 = C9_severity_from_z[where fp = fp_exact and stats = ?st and v = 107 and e = env0
      and d = ?d and n = "''pressure''" and st = MetricStatistics_init and xs = "[1]"
      and samples = ?xs]
  note t2 = C9_severity_from_z[where fp = fp_exact and stats = ?st and v = 105 and e = env0]
  note t3 = C9_severity_from_z[where fp = fp_exact and stats = ?st and v = 104 and e = env0]
  have a: "alert_with (detect_pressure_anomaly fp_exact ?st 107 env0)
      ''pressure'' CRITICAL 107 3.5 0.7"
    using t1 st z(1) by (simp add: ex)
  have b: "alert_with (detect_radiation_anomaly fp_exact ?st 105 env0)
      ''radiation'' WARNING 105 2.5 0.5"
    using t2 st z(2) by (simp add: ex)
  have c: "detect_battery_anomaly fp_exact ?st 104 env0 = (None, env0)"
    using t3 z(3) by simp
  have d: "\<exists>d'. update_metric fp_exact ''pressure'' 3 ?d = Inr d' \<and>
      mean (pressure_stats d') = 2 \<and> std_dev (pressure_stats d') = 1"
    by (simp add: ad_defs)
  have e: "\<exists>d' out e'. anomaly_run fp_exact ?xs (AnomalyDetector_init, env0)
         = Inr ([[], [], [], [], [], [], [], [], [], out], d', e') \<and>
         sample_count (pressure_stats d') = 10"
    using t1[THEN conjunct2, THEN conjunct2, THEN conjunct2, THEN conjunct2, THEN conjunct2,
             THEN conjunct2, THEN conjunct2, THEN conjunct2, THEN mp, OF m]
    by (auto simp del: anomaly_run.simps simp: eval_nat_numeral)
  from a b c d e show ?thesis by blast
qed

section \<open>Properties of the safety layer\<close>

lemma py_index_first: "rs \<noteq> [] \<Longrightarrow> py_index rs 0 = Inr (hd rs)"
  by (cases rs) (simp_all add: py_index_def)

lemma py_index_last: "rs \<noteq> [] \<Longrightarrow> py_index rs (- 1) = Inr (last rs)"
  by (cases rs rule: rev_cases) (simp_all add: py_index_def nth_append)

lemma get_rate_of_change_eq:
  "get_rate_of_change fp h =
     Inr (if length (ph_readings h) < 2 then None
          else let time_diff =
                     fdiv0 fp (fdiv0 fp (real_of_int (fst (last (ph_readings h))
                                                       - fst (hd (ph_readings h)))) 1000000) 60.0
               in if time_diff = 0 then None
                  else if snd (hd (ph_readings h)) = 0 then None
                  else Some (fdiv0 fp
                               (fmul fp
                                  (fdiv0 fp (fsub fp (snd (last (ph_readings h)))
                                                     (snd (hd (ph_readings h))))
                                     (snd (hd (ph_readings h))))
                                  100.0)
                               time_diff))"
proof (cases "length (ph_readings h) < 2")
  case True
  then show ?thesis by (simp add: get_rate_of_change_def)
next
  case False
  then have ne: "ph_readings h \<noteq> []" by auto
  obtain ots op where o: "hd (ph_readings h) = (ots, op)" by (cases "hd (ph_readings h)")
  obtain nts np where n: "last (ph_readings h) = (nts, np)" by (cases "last (ph_readings h)")
  show ?thesis using False
    by (simp add: get_rate_of_change_def py_index_first[OF ne] py_index_last[OF ne] o n
          py_truediv_def Let_def)
qed

lemma raise_alert_facts:
  assumes "raise_alert k sev cat msg sys aid title desc (s, e) = (out, s', e')"
  shows "pressure_history s' = pressure_history s"
    and "radiation_history s' = radiation_history s"
    and "dom (active_alerts s') = insert k (dom (active_alerts s))"
    and "fst out \<noteq> [] \<longleftrightarrow> k \<notin> dom (active_alerts s)"
    and "length (fst out) \<le> 1"
    and "length (snd out) = length (fst out)"
    and "\<forall>r \<in> set (snd out). mr_priority r = ''high''"
    and "k \<in> dom (active_alerts s) \<longrightarrow> s' = s \<and> e' = e"
  using assms
  by (auto simp: raise_alert_def create_critical_recommendation_def uuid4_def utcnow_def Let_def
           split: if_splits)

lemmas alert_keys = ALERT_PRESSURE_LEAK_def ALERT_RADIATION_SPIKE_def
  ALERT_RADIATION_CRITICAL_def ALERT_PRESSURE_CRITICAL_def

lemma get_rate_of_change_total: "\<exists>rate. get_rate_of_change fp h = Inr rate"
  by (subst get_rate_of_change_eq) simp

lemma check_pressure_result:
  assumes "get_rate_of_change fp (pressure_history s) = Inr rate"
  shows "\<exists>out s' e'. check_pressure fp state (s, e) = Inr (out, s', e') \<and>
     pressure_history s' = pressure_history s \<and> radiation_history s' = radiation_history s \<and>
     dom (active_alerts s') =
       (if \<exists>r. rate = Some r \<and> r < - 2 then insert ALERT_PRESSURE_LEAK (dom (active_alerts s))
        else dom (active_alerts s) - {ALERT_PRESSURE_LEAK}) \<and>
     (fst out \<noteq> [] \<longleftrightarrow> (\<exists>r. rate = Some r \<and> r < - 2) \<and> ALERT_PRESSURE_LEAK \<notin> dom (active_alerts s)) \<and>
     length (fst out) \<le> 1 \<and> length (snd out) = length (fst out) \<and>
     (\<forall>r \<in> set (snd out). mr_priority r = ''high'')"
proof (cases "\<exists>r. rate = Some r \<and> r < - 2")
  case True
  obtain out s' e' where r: "raise_alert ALERT_PRESSURE_LEAK CRITICAL ''pressure''
                   (Fmt ''PRESSURE LEAK DETECTED: Pressure dropping at {:.2f}% per minute''
                      [\<bar>the rate\<bar>])
                   ''atmosphere'' ''ISOLATE_COMPARTMENTS'' ''Isolate Compartments''
                   (Fmt ''Pressure leak detected (dropping at {:.2f}% per minute). Recommend immediate compartment isolation to prevent further pressure loss.''
                      [\<bar>the rate\<bar>])
                   (s, e) = (out, s', e')"
    by (metis prod_cases3)
  from True assms r have "check_pressure fp state (s, e) = Inr (out, s', e')"
    by (auto simp: check_pressure_def PRESSURE_LEAK_THRESHOLD_def)
  with raise_alert_facts[OF r] True show ?thesis by auto
next
  case False
  with assms have "check_pressure fp state (s, e) =
      Inr (([], []), s\<lparr>active_alerts := (active_alerts s)(ALERT_PRESSURE_LEAK := None)\<rparr>, e)"
    by (cases rate) (auto simp: check_pressure_def PRESSURE_LEAK_THRESHOLD_def fun_upd_idem_iff domIff
          intro!: SafetyLayer.equality)
  with False show ?thesis by auto
qed

lemma check_radiation_result:
  assumes "check_radiation fp state (s, e) = (out, s', e')"
  shows "pressure_history s' = pressure_history s \<and> radiation_history s' = radiation_history s \<and>
     dom (active_alerts s') =
       (if radiation_msv_hr state \<ge> 0.5
          then insert ALERT_RADIATION_CRITICAL (dom (active_alerts s))
        else if is_spike fp (radiation_history s) (radiation_msv_hr state)
          then insert ALERT_RADIATION_SPIKE (dom (active_alerts s))
        else dom (active_alerts s) - {ALERT_RADIATION_SPIKE}) \<and>
     length (fst out) \<le> 1 \<and> length (snd out) = length (fst out) \<and>
     (fst out \<noteq> [] \<longleftrightarrow>
        (if radiation_msv_hr state \<ge> 0.5 then ALERT_RADIATION_CRITICAL \<notin> dom (active_alerts s)
         else is_spike fp (radiation_history s) (radiation_msv_hr state) \<and>
              ALERT_RADIATION_SPIKE \<notin> dom (active_alerts s))) \<and>
     (\<forall>r \<in> set (snd out). mr_priority r = ''high'')"
proof -
  consider (crit) "radiation_msv_hr state \<ge> 0.5"
    | (spike) "\<not> radiation_msv_hr state \<ge> 0.5" "is_spike fp (radiation_history s) (radiation_msv_hr state)"
    | (none) "\<not> radiation_msv_hr state \<ge> 0.5" "\<not> is_spike fp (radiation_history s) (radiation_msv_hr state)"
    by blast
  then show ?thesis
  proof cases
    case crit
    with assms have "raise_alert ALERT_RADIATION_CRITICAL CRITICAL ''radiation''
         (Fmt ''CRITICAL: Radiation level at {:.4f} mSv/hr (threshold: {} mSv/hr)''
            [radiation_msv_hr state, RADIATION_CRITICAL_THRESHOLD])
         ''radiation'' ''ACTIVATE_STORM_SHELTER'' ''Activate Storm Shelter Protocol''
         (Fmt ''Radiation level critical ({:.4f} mSv/hr). All personnel must immediately proceed to storm shelters.''
            [radiation_msv_hr state])
         (s, e) = (out, s', e')"
      by (simp add: check_radiation_def is_critical_def RADIATION_CRITICAL_THRESHOLD_def)
    from raise_alert_facts[OF this] crit show ?thesis by simp
  next
    case spike
    with assms have "raise_alert ALERT_RADIATION_SPIKE WARNING ''radiation''
         (Fmt ''Radiation spike detected: {:.4f} mSv/hr (baseline: {:.4f} mSv/hr)''
            [radiation_msv_hr state,
             (case baseline (radiation_history s) of None \<Rightarrow> 0.0
              | Some b \<Rightarrow> if b = 0 then 0.0 else b)])
         ''radiation'' ''PREPARE_STORM_SHELTER'' ''Prepare Storm Shelter''
         (Fmt ''Radiation spike detected ({:.4f} mSv/hr). Prepare to move to storm shelters if levels continue to rise.''
            [radiation_msv_hr state])
         (s, e) = (out, s', e')"
      by (simp add: check_radiation_def is_critical_def RADIATION_CRITICAL_THRESHOLD_def)
    from raise_alert_facts[OF this] spike show ?thesis by simp
  next
    case none
    then have "check_radiation fp state (s, e) =
        (([], []), s\<lparr>active_alerts := (active_alerts s)(ALERT_RADIATION_SPIKE := None)\<rparr>, e)"
      by (auto simp: check_radiation_def is_critical_def RADIATION_CRITICAL_THRESHOLD_def
            fun_upd_idem_iff domIff intro!: SafetyLayer.equality)
    with assms none show ?thesis by (auto split: if_splits)
  qed
qed

lemma pressure_critical_step:
  assumes "(if pressure_kpa state < PRESSURE_CRITICAL_THRESHOLD then
              raise_alert ALERT_PRESSURE_CRITICAL CRITICAL ''pressure''
                (Fmt ''CRITICAL: Pressure critically low at {:.2f} kPa'' [pressure_kpa state])
                ''atmosphere'' ''IMMEDIATE_EVACUATION'' ''Immediate Evacuation Required''
                (Fmt ''Pressure has dropped to critical level ({:.2f} kPa). Immediate evacuation to emergency shelters required.''
                   [pressure_kpa state])
                (s, e)
            else (([], []), s, e)) = (out, s', e')"
  shows "pressure_history s' = pressure_history s \<and> radiation_history s' = radiation_history s \<and>
     dom (active_alerts s') =
       (if pressure_kpa state < 90 then insert ALERT_PRESSURE_CRITICAL (dom (active_alerts s))
        else dom (active_alerts s)) \<and>
     length (fst out) \<le> 1 \<and> length (snd out) = length (fst out) \<and>
     (fst out \<noteq> [] \<longleftrightarrow>
        pressure_kpa state < 90 \<and> ALERT_PRESSURE_CRITICAL \<notin> dom (active_alerts s)) \<and>
     (\<forall>r \<in> set (snd out). mr_priority r = ''high'')"
proof (cases "pressure_kpa state < 90")
  case True
  with assms have "raise_alert ALERT_PRESSURE_CRITICAL CRITICAL ''pressure''
                (Fmt ''CRITICAL: Pressure critically low at {:.2f} kPa'' [pressure_kpa state])
                ''atmosphere'' ''IMMEDIATE_EVACUATION'' ''Immediate Evacuation Required''
                (Fmt ''Pressure has dropped to critical level ({:.2f} kPa). Immediate evacuation to emergency shelters required.''
                   [pressure_kpa state])
                (s, e) = (out, s', e')"
    by (simp add: PRESSURE_CRITICAL_THRESHOLD_def)
  from raise_alert_facts[OF this] True show ?thesis by simp
next
  case False
  with assms show ?thesis by (auto simp: PRESSURE_CRITICAL_THRESHOLD_def)
qed

lemma check_safety_result:
  assumes ph: "ph_add_reading (pressure_kpa state) (pressure_history s, e) = (ph, e1)"
      and rh: "rh_add_reading fp (radiation_msv_hr state) (radiation_history s, e1) = (rh, e2)"
      and rate: "get_rate_of_change fp ph = Inr rate"
  shows "\<exists>out s' e'. check_safety fp state t (s, e) = Inr (out, s', e') \<and>
     pressure_history s' = ph \<and> radiation_history s' = rh \<and>
     dom (active_alerts s') =
       (let A1 = (if \<exists>r. rate = Some r \<and> r < - 2
                    then insert ALERT_PRESSURE_LEAK (dom (active_alerts s))
                  else dom (active_alerts s) - {ALERT_PRESSURE_LEAK});
            A2 = (if pressure_kpa state < 90 then insert ALERT_PRESSURE_CRITICAL A1 else A1)
        in if radiation_msv_hr state \<ge> 0.5 then insert ALERT_RADIATION_CRITICAL A2
           else if is_spike fp rh (radiation_msv_hr state) then insert ALERT_RADIATION_SPIKE A2
           else A2 - {ALERT_RADIATION_SPIKE}) \<and>
     (\<forall>r \<in> set (snd out). mr_priority r = ''high'')"
proof -
  let ?s2 = "s\<lparr>pressure_history := ph, radiation_history := rh\<rparr>"
  from rate have rate2: "get_rate_of_change fp (pressure_history ?s2) = Inr rate" by simp
  have "\<exists>out3 s3 e3. check_pressure fp state (?s2, e2) = Inr (out3, s3, e3) \<and>
      pressure_history s3 = ph \<and> radiation_history s3 = rh \<and>
      dom (active_alerts s3) =
       (if \<exists>r. rate = Some r \<and> r < - 2 then insert ALERT_PRESSURE_LEAK (dom (active_alerts s))
        else dom (active_alerts s) - {ALERT_PRESSURE_LEAK}) \<and>
      (\<forall>r \<in> set (snd out3). mr_priority r = ''high'')"
  proof -
    from check_pressure_result[OF rate2, of state e2] obtain o3 t3 f3 where
      c: "check_pressure fp state (?s2, e2) = Inr (o3, t3, f3) \<and>
     pressure_history t3 = pressure_history ?s2 \<and> radiation_history t3 = radiation_history ?s2 \<and>
     dom (active_alerts t3) =
       (if \<exists>r. rate = Some r \<and> r < - 2 then insert ALERT_PRESSURE_LEAK (dom (active_alerts ?s2))
        else dom (active_alerts ?s2) - {ALERT_PRESSURE_LEAK}) \<and>
     (fst o3 \<noteq> [] \<longleftrightarrow> (\<exists>r. rate = Some r \<and> r < - 2) \<and> ALERT_PRESSURE_LEAK \<notin> dom (active_alerts ?s2)) \<and>
     length (fst o3) \<le> 1 \<and> length (snd o3) = length (fst o3) \<and>
     (\<forall>r \<in> set (snd o3). mr_priority r = ''high'')"
      by blast
    show ?thesis
      apply (rule exI[of _ o3], rule exI[of _ t3], rule exI[of _ f3])
      using c apply (simp cong: if_cong)
      done
  qed
  then obtain out3 s3 e3 where
    cp: "check_pressure fp state (?s2, e2) = Inr (out3, s3, e3)"
    and h3: "pressure_history s3 = ph" "radiation_history s3 = rh"
    and a3: "dom (active_alerts s3) =
       (if \<exists>r. rate = Some r \<and> r < - 2 then insert ALERT_PRESSURE_LEAK (dom (active_alerts s))
        else dom (active_alerts s) - {ALERT_PRESSURE_LEAK})"
    and p3: "\<forall>r \<in> set (snd out3). mr_priority r = ''high''"
    by blast
  obtain outc s4 e4 where
    pc: "(if pressure_kpa state < PRESSURE_CRITICAL_THRESHOLD then
              raise_alert ALERT_PRESSURE_CRITICAL CRITICAL ''pressure''
                (Fmt ''CRITICAL: Pressure critically low at {:.2f} kPa'' [pressure_kpa state])
                ''atmosphere'' ''IMMEDIATE_EVACUATION'' ''Immediate Evacuation Required''
                (Fmt ''Pressure has dropped to critical level ({:.2f} kPa). Immediate evacuation to emergency shelters required.''
                   [pressure_kpa state])
                (s3, e3)
            else (([], []), s3, e3)) = (outc, s4, e4)"
    by (metis prod_cases3)
  note f4 = pressure_critical_step[OF pc]
  obtain outr s5 e5 where cr: "check_radiation fp state (s4, e4) = (outr, s5, e5)"
    by (metis prod_cases3)
  note f5 = check_radiation_result[OF cr]
  have "check_safety fp state t (s, e) =
          Inr ((fst out3 @ fst outc @ fst outr, snd out3 @ snd outc @ snd outr), s5, e5)"
    using ph rh cp pc cr
    by (cases out3; cases outc; cases outr) (simp add: check_safety_def Let_def)
  moreover have "pressure_history s5 = ph" "radiation_history s5 = rh"
    using f4 f5 h3 by simp_all
  moreover have "dom (active_alerts s5) =
       (let A1 = (if \<exists>r. rate = Some r \<and> r < - 2
                    then insert ALERT_PRESSURE_LEAK (dom (active_alerts s))
                  else dom (active_alerts s) - {ALERT_PRESSURE_LEAK});
            A2 = (if pressure_kpa state < 90 then insert ALERT_PRESSURE_CRITICAL A1 else A1)
        in if radiation_msv_hr state \<ge> 0.5 then insert ALERT_RADIATION_CRITICAL A2
           else if is_spike fp rh (radiation_msv_hr state) then insert ALERT_RADIATION_SPIKE A2
           else A2 - {ALERT_RADIATION_SPIKE})"
    using f4 f5 h3 a3 by (simp add: Let_def)
  moreover have "\<forall>r \<in> set (snd out3 @ snd outc @ snd outr). mr_priority r = ''high''"
    using p3 f4 f5 by auto
  ultimately show ?thesis by simp
qed

lemma check_safety_active:
  "\<exists>out s' e'. check_safety fp state t (s, e) = Inr (out, s', e') \<and>
     pressure_history s' = fst (ph_add_reading (pressure_kpa state) (pressure_history s, e)) \<and>
     radiation_history s' =
       fst (rh_add_reading fp (radiation_msv_hr state)
              (radiation_history s, snd (ph_add_reading (pressure_kpa state) (pressure_history s, e)))) \<and>
     (ALERT_PRESSURE_LEAK \<in> dom (active_alerts s') \<longleftrightarrow>
        (\<exists>r. get_rate_of_change fp (pressure_history s') = Inr (Some r) \<and> r < - 2)) \<and>
     (ALERT_PRESSURE_CRITICAL \<in> dom (active_alerts s') \<longleftrightarrow>
        pressure_kpa state < 90 \<or> ALERT_PRESSURE_CRITICAL \<in> dom (active_alerts s)) \<and>
     (ALERT_RADIATION_CRITICAL \<in> dom (active_alerts s') \<longleftrightarrow>
        radiation_msv_hr state \<ge> 0.5 \<or> ALERT_RADIATION_CRITICAL \<in> dom (active_alerts s)) \<and>
     (ALERT_RADIATION_SPIKE \<in> dom (active_alerts s') \<longleftrightarrow>
        (if radiation_msv_hr state \<ge> 0.5 then ALERT_RADIATION_SPIKE \<in> dom (active_alerts s)
         else is_spike fp (radiation_history s') (radiation_msv_hr state))) \<and>
     (\<forall>r \<in> set (snd out). mr_priority r = ''high'')"
proof -
  obtain ph e1 where ph: "ph_add_reading (pressure_kpa state) (pressure_history s, e) = (ph, e1)"
    by (metis surj_pair)
  obtain rh e2 where rh: "rh_add_reading fp (radiation_msv_hr state) (radiation_history s, e1) = (rh, e2)"
    by (metis surj_pair)
  obtain rate where rate: "get_rate_of_change fp ph = Inr rate"
    using get_rate_of_change_total by blast
  from check_safety_result[OF ph rh rate, of t] obtain out s' e' where
    c: "check_safety fp state t (s, e) = Inr (out, s', e')"
    and h: "pressure_history s' = ph" "radiation_history s' = rh"
    and a: "dom (active_alerts s') =
       (let A1 = (if \<exists>r. rate = Some r \<and> r < - 2
                    then insert ALERT_PRESSURE_LEAK (dom (active_alerts s))
                  else dom (active_alerts s) - {ALERT_PRESSURE_LEAK});
            A2 = (if pressure_kpa state < 90 then insert ALERT_PRESSURE_CRITICAL A1 else A1)
        in if radiation_msv_hr state \<ge> 0.5 then insert ALERT_RADIATION_CRITICAL A2
           else if is_spike fp rh (radiation_msv_hr state) then insert ALERT_RADIATION_SPIKE A2
           else A2 - {ALERT_RADIATION_SPIKE})"
    and p: "\<forall>r \<in> set (snd out). mr_priority r = ''high''"
    by blast
  have 1: "ALERT_PRESSURE_LEAK \<in> dom (active_alerts s') \<longleftrightarrow>
        (\<exists>r. get_rate_of_change fp (pressure_history s') = Inr (Some r) \<and> r < - 2)"
    unfolding a h rate by (auto simp: Let_def alert_keys)
  have 2: "ALERT_PRESSURE_CRITICAL \<in> dom (active_alerts s') \<longleftrightarrow>
        pressure_kpa state < 90 \<or> ALERT_PRESSURE_CRITICAL \<in> dom (active_alerts s)"
    unfolding a by (auto simp: Let_def alert_keys)
  have 3: "ALERT_RADIATION_CRITICAL \<in> dom (active_alerts s') \<longleftrightarrow>
        radiation_msv_hr state \<ge> 0.5 \<or> ALERT_RADIATION_CRITICAL \<in> dom (active_alerts s)"
    unfolding a by (auto simp: Let_def alert_keys)
  have 4: "ALERT_RADIATION_SPIKE \<in> dom (active_alerts s') \<longleftrightarrow>
        (if radiation_msv_hr state \<ge> 0.5 then ALERT_RADIATION_SPIKE \<in> dom (active_alerts s)
         else is_spike fp (radiation_history s') (radiation_msv_hr state))"
    unfolding a h by (auto simp: Let_def alert_keys)
  from c h ph rh 1 2 3 4 p show ?thesis by simp
qed

text \<open>
  Claim C7. \<open>approve_action\<close> returns \<open>False\<close> and leaves the safety layer and the world
  unchanged when the id is unknown or its record is already approved. Otherwise it returns
  \<open>True\<close> and the record under that id becomes approved, with \<open>approved_by\<close> the given
  approver and \<open>approved_at\<close> the clock reading taken by the call; every later approval of
  the same id returns \<open>False\<close> and changes nothing.
\<close>

theorem C7_approve_action:
  "((pending_approvals s rid = None \<or> (\<exists>a. pending_approvals s rid = Some a \<and> approved a)) \<longrightarrow>
      approve_action rid approver (s, e) = (False, s, e))
   \<and> (\<forall>a. pending_approvals s rid = Some a \<and> \<not> approved a \<longrightarrow>
        approve_action rid approver (s, e) =
          (True,
           s\<lparr>pending_approvals := (pending_approvals s)(rid \<mapsto>
                a\<lparr>approved := True, approved_by := Some approver,
                  approved_at := Some (clock e (clock_reads e))\<rparr>)\<rparr>,
           e\<lparr>clock_reads := Suc (clock_reads e)\<rparr>) \<and>
        (\<forall>approver2. approve_action rid approver2
              (snd (approve_action rid approver (s, e))) =
           (False, snd (approve_action rid approver (s, e)))))"
  by (auto simp: approve_action_def utcnow_def Let_def)

theorem C7_approve_action_witness:
  "approve_action ''unknown'' ''alice''
      (snd (create_critical_recommendation ''IMMEDIATE_EVACUATION'' ''pressure''
              ''Immediate Evacuation Required'' (Fmt ''evacuate {:.2f}'' [85]) True
              (SafetyLayer_init, env0)))
     = (False,
        snd (create_critical_recommendation ''IMMEDIATE_EVACUATION'' ''pressure''
              ''Immediate Evacuation Required'' (Fmt ''evacuate {:.2f}'' [85]) True
              (SafetyLayer_init, env0))) \<and>
   fst (approve_action ''uuid-'' ''alice''
      (snd (create_critical_recommendation ''IMMEDIATE_EVACUATION'' ''pressure''
              ''Immediate Evacuation Required'' (Fmt ''evacuate {:.2f}'' [85]) True
              (SafetyLayer_init, env0)))) \<and>
   map_option (\<lambda>a. (approved a, approved_by a, approved_at a))
     (pending_approvals
        (fst (snd (approve_action ''uuid-'' ''alice''
           (snd (create_critical_recommendation ''IMMEDIATE_EVACUATION'' ''pressure''
                   ''Immediate Evacuation Required'' (Fmt ''evacuate {:.2f}'' [85]) True
                   (SafetyLayer_init, env0)))))) ''uuid-'')
     = Some (True, Some ''alice'', Some 2000000) \<and>
   approve_action ''uuid-'' ''bob''
      (snd (approve_action ''uuid-'' ''alice''
         (snd (create_critical_recommendation ''IMMEDIATE_EVACUATION'' ''pressure''
                 ''Immediate Evacuation Required'' (Fmt ''evacuate {:.2f}'' [85]) True
                 (SafetyLayer_init, env0)))))
     = (False,
        snd (approve_action ''uuid-'' ''alice''
         (snd (create_critical_recommendation ''IMMEDIATE_EVACUATION'' ''pressure''
                 ''Immediate Evacuation Required'' (Fmt ''evacuate {:.2f}'' [85]) True
                 (SafetyLayer_init, env0)))))"
  using C7_approve_action
          [of "fst (snd (create_critical_recommendation ''IMMEDIATE_EVACUATION'' ''pressure''
                 ''Immediate Evacuation Required'' (Fmt ''evacuate {:.2f}'' [85]) True
                 (SafetyLayer_init, env0)))" "''unknown''" "''alice''"
              "snd (snd (create_critical_recommendation ''IMMEDIATE_EVACUATION'' ''pressure''
                 ''Immediate Evacuation Required'' (Fmt ''evacuate {:.2f}'' [85]) True
                 (SafetyLayer_init, env0)))"]
        C7_approve_action
          [of "fst (snd (create_critical_recommendation ''IMMEDIATE_EVACUATION'' ''pressure''
                 ''Immediate Evacuation Required'' (Fmt ''evacuate {:.2f}'' [85]) True
                 (SafetyLayer_init, env0)))" "''uuid-''" "''alice''"
              "snd (snd (create_critical_recommendation ''IMMEDIATE_EVACUATION'' ''pressure''
                 ''Immediate Evacuation Required'' (Fmt ''evacuate {:.2f}'' [85]) True
                 (SafetyLayer_init, env0)))"]
  by (simp add: create_critical_recommendation_def approve_action_def uuid4_def utcnow_def
        Let_def SafetyLayer_init_def env0_def)

lemma check_pressure_undefined:
  assumes "get_rate_of_change fp (pressure_history s) = Inr None"
  shows "check_pressure fp state (s, e) =
           Inr (([], []), s\<lparr>active_alerts := (active_alerts s)(ALERT_PRESSURE_LEAK := None)\<rparr>, e)"
  using assms
  by (auto simp: check_pressure_def fun_upd_idem_iff domIff intro!: SafetyLayer.equality)

text \<open>
  Claim C10. \<open>get_rate_of_change\<close> always returns normally: it raises neither
  \<open>ZeroDivisionError\<close> nor \<open>IndexError\<close>. It returns \<open>None\<close> when fewer than two readings
  are in the window, when the oldest and newest reading carry the same timestamp, or when
  the oldest pressure is \<open>0\<close>. When the rate is \<open>None\<close>, \<open>_check_pressure\<close> emits nothing
  and removes \<open>PRESSURE_LEAK\<close> from the active alerts, and after \<open>check_safety\<close> the leak
  is not active. This holds whatever the floating-point operations \<open>fp\<close> compute.
\<close>

theorem C10_rate_of_change_total:
  "(\<exists>rate. get_rate_of_change fp h = Inr rate)
   \<and> (length (ph_readings h) < 2 \<or>
       fst (last (ph_readings h)) = fst (hd (ph_readings h)) \<or>
       snd (hd (ph_readings h)) = 0 \<longrightarrow> get_rate_of_change fp h = Inr None)
   \<and> (get_rate_of_change fp (pressure_history s) = Inr None \<longrightarrow>
        check_pressure fp state (s, e) =
          Inr (([], []),
               s\<lparr>active_alerts := (active_alerts s)(ALERT_PRESSURE_LEAK := None)\<rparr>, e))
   \<and> (\<exists>out s' e'. check_safety fp state t (s, e) = Inr (out, s', e') \<and>
         (get_rate_of_change fp (pressure_history s') = Inr None \<longrightarrow>
            ALERT_PRESSURE_LEAK \<notin> dom (active_alerts s')))"
proof (intro conjI impI)
  show "\<exists>rate. get_rate_of_change fp h = Inr rate" by (rule get_rate_of_change_total)
next
  assume "length (ph_readings h) < 2 \<or>
       fst (last (ph_readings h)) = fst (hd (ph_readings h)) \<or>
       snd (hd (ph_readings h)) = 0"
  then show "get_rate_of_change fp h = Inr None"
    by (subst get_rate_of_change_eq) (auto simp: Let_def fdiv0_def)
next
  assume "get_rate_of_change fp (pressure_history s) = Inr None"
  then show "check_pressure fp state (s, e) =
          Inr (([], []),
               s\<lparr>active_alerts := (active_alerts s)(ALERT_PRESSURE_LEAK := None)\<rparr>, e)"
    by (rule check_pressure_undefined)
next
  from check_safety_active[of fp state t s e] obtain out s' e' where
    c: "check_safety fp state t (s, e) = Inr (out, s', e')"
    and l: "ALERT_PRESSURE_LEAK \<in> dom (active_alerts s') \<longleftrightarrow>
        (\<exists>r. get_rate_of_change fp (pressure_history s') = Inr (Some r) \<and> r < - 2)"
    by blast
  from l have "get_rate_of_change fp (pressure_history s') = Inr None \<longrightarrow>
            ALERT_PRESSURE_LEAK \<notin> dom (active_alerts s')" by auto
  with c show "\<exists>out s' e'. check_safety fp state t (s, e) = Inr (out, s', e') \<and>
         (get_rate_of_change fp (pressure_history s') = Inr None \<longrightarrow>
            ALERT_PRESSURE_LEAK \<notin> dom (active_alerts s'))" by blast
qed

theorem C10_rate_of_change_total_witness:
  "get_rate_of_change fp_exact \<lparr>ph_readings = [(1000000, 101.325)], max_history_minutes = 5\<rparr>
     = Inr None \<and>
   get_rate_of_change fp_exact
     \<lparr>ph_readings = [(1000000, 101.325), (1000000, 80.0)], max_history_minutes = 5\<rparr>
     = Inr None \<and>
   get_rate_of_change fp_exact
     \<lparr>ph_readings = [(1000000, 0), (61000000, 80.0)], max_history_minutes = 5\<rparr>
     = Inr None \<and>
   check_pressure fp_exact SettlementState_init
     (SafetyLayer_init\<lparr>active_alerts := [ALERT_PRESSURE_LEAK \<mapsto>
         \<lparr>alert_id = ''a'', alert_timestamp = 0, alert_severity = CRITICAL,
          alert_category = ''pressure'', alert_message = Fmt ''leak'' [3],
          alert_system = ''atmosphere'', alert_resolved = False\<rparr>]\<rparr>, env0)
     = Inr (([], []), SafetyLayer_init, env0)"
  using C10_rate_of_change_total
     [where fp = fp_exact
        and h = "\<lparr>ph_readings = [(1000000, 101.325)], max_history_minutes = 5\<rparr>"
        and s = "SafetyLayer_init\<lparr>active_alerts := [ALERT_PRESSURE_LEAK \<mapsto>
         \<lparr>alert_id = ''a'', alert_timestamp = 0, alert_severity = CRITICAL,
          alert_category = ''pressure'', alert_message = Fmt ''leak'' [3],
          alert_system = ''atmosphere'', alert_resolved = False\<rparr>]\<rparr>"
        and state = SettlementState_init and e = env0 and t = "()"]
    C10_rate_of_change_total
     [where fp = fp_exact
        and h = "\<lparr>ph_readings = [(1000000, 101.325), (1000000, 80.0)], max_history_minutes = 5\<rparr>"
        and s = SafetyLayer_init and state = SettlementState_init and e = env0 and t = "()"]
    C10_rate_of_change_total
     [where fp = fp_exact
        and h = "\<lparr>ph_readings = [(1000000, 0), (61000000, 80.0)], max_history_minutes = 5\<rparr>"
        and s = SafetyLayer_init and state = SettlementState_init and e = env0 and t = "()"]
  by (simp add: SafetyLayer_init_def PressureHistory_init_def get_rate_of_change_def)

lemmas sl_defs = check_safety_def check_pressure_def check_radiation_def raise_alert_def
  create_critical_recommendation_def ph_add_reading_def rh_add_reading_def
  get_rate_of_change_def py_index_def py_truediv_def is_spike_def is_critical_def last_n_def
  timedelta_minutes_def utcnow_def uuid4_def Let_def
  SafetyLayer_init_def PressureHistory_init_def RadiationHistory_init_def
  SettlementState_init_def env0_def alert_keys
  PRESSURE_LEAK_THRESHOLD_def RADIATION_SPIKE_THRESHOLD_def RADIATION_CRITICAL_THRESHOLD_def
  PRESSURE_CRITICAL_THRESHOLD_def run_outputs_def run_active_def run_final_def
  fp_exact_def fdiv0_def

lemma ph_add_reading_window:
  "ph_readings (fst (ph_add_reading p (h, e))) =
     filter (\<lambda>(ts, val). ts \<ge> clock e (clock_reads e) - timedelta_minutes (max_history_minutes h))
       (ph_readings h @ [(clock e (clock_reads e), p)])"
  by (simp add: ph_add_reading_def utcnow_def Let_def)

text \<open>
  Claim C4. With at least two samples in the window, the rate is computed from the oldest
  and the newest sample alone, by the operations of the code in the order of the code:
  the pressure difference divided by the oldest pressure, times \<open>100\<close>, divided by the
  minutes elapsed (the microseconds between the two timestamps divided by \<open>10\<^sup>6\<close>, then
  by \<open>60\<close>); each operation is the floating-point one of \<open>fp\<close>, so the value compared with
  \<open>-2.0\<close> is the value the code compares. The rate is undefined (\<open>None\<close>) exactly when there
  are fewer than two samples, the elapsed minutes are \<open>0\<close>, or the oldest pressure is \<open>0\<close>.
  \<open>_check_pressure\<close> emits a leak alert iff the rate is defined and below \<open>-2.0\<close> and
  \<open>PRESSURE_LEAK\<close> was not active, at most one per call; afterwards the leak is active iff
  the rate is defined and below \<open>-2.0\<close>, so it clears on the first reading whose rate is
  \<open>\<ge> -2.0\<close> or undefined. The same holds of \<open>check_safety\<close>, for the window after the new
  reading has been added and readings older than five minutes have been dropped.
\<close>

theorem C4_pressure_leak:
  "get_rate_of_change fp h =
     Inr (if length (ph_readings h) < 2 then None
          else let time_diff =
                     fdiv0 fp (fdiv0 fp (real_of_int (fst (last (ph_readings h))
                                                       - fst (hd (ph_readings h)))) 1000000) 60.0
               in if time_diff = 0 then None
                  else if snd (hd (ph_readings h)) = 0 then None
                  else Some (fdiv0 fp
                               (fmul fp
                                  (fdiv0 fp (fsub fp (snd (last (ph_readings h)))
                                                     (snd (hd (ph_readings h))))
                                     (snd (hd (ph_readings h))))
                                  100.0)
                               time_diff))
   \<and> (get_rate_of_change fp (pressure_history s) = Inr rate \<longrightarrow>
        (\<exists>out s' e'. check_pressure fp state (s, e) = Inr (out, s', e') \<and>
           (fst out \<noteq> [] \<longleftrightarrow>
              (\<exists>r. rate = Some r \<and> r < - 2) \<and> ALERT_PRESSURE_LEAK \<notin> dom (active_alerts s)) \<and>
           length (fst out) \<le> 1 \<and>
           (ALERT_PRESSURE_LEAK \<in> dom (active_alerts s') \<longleftrightarrow> (\<exists>r. rate = Some r \<and> r < - 2))))
   \<and> (\<exists>out s' e'. check_safety fp state t (s, e) = Inr (out, s', e') \<and>
         pressure_history s' = fst (ph_add_reading (pressure_kpa state) (pressure_history s, e)) \<and>
         (ALERT_PRESSURE_LEAK \<in> dom (active_alerts s') \<longleftrightarrow>
            (\<exists>r. get_rate_of_change fp (pressure_history s') = Inr (Some r) \<and> r < - 2)))
   \<and> ph_readings (fst (ph_add_reading p (h, e))) =
        filter (\<lambda>(ts, val). ts \<ge> clock e (clock_reads e) - timedelta_minutes (max_history_minutes h))
          (ph_readings h @ [(clock e (clock_reads e), p)])"
proof (intro conjI impI)
  show "get_rate_of_change fp h =
     Inr (if length (ph_readings h) < 2 then None
          else let time_diff =
                     fdiv0 fp (fdiv0 fp (real_of_int (fst (last (ph_readings h))
                                                       - fst (hd (ph_readings h)))) 1000000) 60.0
               in if time_diff = 0 then None
                  else if snd (hd (ph_readings h)) = 0 then None
                  else Some (fdiv0 fp
                               (fmul fp
                                  (fdiv0 fp (fsub fp (snd (last (ph_readings h)))
                                                     (snd (hd (ph_readings h))))
                                     (snd (hd (ph_readings h))))
                                  100.0)
                               time_diff))"
    by (rule get_rate_of_change_eq)
next
  assume r: "get_rate_of_change fp (pressure_history s) = Inr rate"
  from check_pressure_result[OF r, of state e] obtain out s' e' where
    c: "check_pressure fp state (s, e) = Inr (out, s', e')"
    and d: "dom (active_alerts s') =
       (if \<exists>r. rate = Some r \<and> r < - 2 then insert ALERT_PRESSURE_LEAK (dom (active_alerts s))
        else dom (active_alerts s) - {ALERT_PRESSURE_LEAK})"
    and f: "fst out \<noteq> [] \<longleftrightarrow> (\<exists>r. rate = Some r \<and> r < - 2) \<and> ALERT_PRESSURE_LEAK \<notin> dom (active_alerts s)"
    and l: "length (fst out) \<le> 1"
    by blast
  from d have a: "ALERT_PRESSURE_LEAK \<in> dom (active_alerts s') \<longleftrightarrow> (\<exists>r. rate = Some r \<and> r < - 2)"
    by (simp split: if_splits)
  show "\<exists>out s' e'. check_pressure fp state (s, e) = Inr (out, s', e') \<and>
           (fst out \<noteq> [] \<longleftrightarrow>
              (\<exists>r. rate = Some r \<and> r < - 2) \<and> ALERT_PRESSURE_LEAK \<notin> dom (active_alerts s)) \<and>
           length (fst out) \<le> 1 \<and>
           (ALERT_PRESSURE_LEAK \<in> dom (active_alerts s') \<longleftrightarrow> (\<exists>r. rate = Some r \<and> r < - 2))"
    by (rule exI[of _ out], rule exI[of _ s'], rule exI[of _ e']) (use c f l a in simp)
next
  from check_safety_active[of fp state t s e]
  show "\<exists>out s' e'. check_safety fp state t (s, e) = Inr (out, s', e') \<and>
         pressure_history s' = fst (ph_add_reading (pressure_kpa state) (pressure_history s, e)) \<and>
         (ALERT_PRESSURE_LEAK \<in> dom (active_alerts s') \<longleftrightarrow>
            (\<exists>r. get_rate_of_change fp (pressure_history s') = Inr (Some r) \<and> r < - 2))"
    by blast
next
  show "ph_readings (fst (ph_add_reading p (h, e))) =
        filter (\<lambda>(ts, val). ts \<ge> clock e (clock_reads e) - timedelta_minutes (max_history_minutes h))
          (ph_readings h @ [(clock e (clock_reads e), p)])"
    by (rule ph_add_reading_window)
qed

theorem C4_pressure_leak_witness:
  "get_rate_of_change fp_exact
      \<lparr>ph_readings = [(0, 128.0), (60000000, 124.0)], max_history_minutes = 5\<rparr>
     = Inr (Some (- 3.125)) \<and>
   length (fst (fst (projr (check_pressure fp_exact SettlementState_init
      (SafetyLayer_init\<lparr>pressure_history :=
          \<lparr>ph_readings = [(0, 128.0), (60000000, 124.0)], max_history_minutes = 5\<rparr>\<rparr>, env0))))) = 1 \<and>
   ph_readings (fst (ph_add_reading 120.0
      (\<lparr>ph_readings = [(0, 128.0), (60000000, 124.0)], max_history_minutes = 5\<rparr>,
       env0\<lparr>clock := (\<lambda>n. 330000000)\<rparr>))) = [(60000000, 124.0), (330000000, 120.0)] \<and>
   map (length \<circ> fst)
     (run_outputs (safety_run fp_exact
        [SettlementState_init\<lparr>pressure_kpa := 100.0\<rparr>, SettlementState_init\<lparr>pressure_kpa := 95.0\<rparr>,
         SettlementState_init\<lparr>pressure_kpa := 95.0\<rparr>, SettlementState_init\<lparr>pressure_kpa := 100.0\<rparr>,
         SettlementState_init\<lparr>pressure_kpa := 90.0\<rparr>] (SafetyLayer_init, env0)))
     = [0, 1, 0, 0, 1]"
  using C4_pressure_leak
     [where fp = fp_exact
        and h = "\<lparr>ph_readings = [(0, 128.0), (60000000, 124.0)], max_history_minutes = 5\<rparr>"
        and s = "SafetyLayer_init\<lparr>pressure_history :=
          \<lparr>ph_readings = [(0, 128.0), (60000000, 124.0)], max_history_minutes = 5\<rparr>\<rparr>"
        and rate = "Some (- 3.125)" and state = SettlementState_init
        and e = "env0\<lparr>clock := (\<lambda>n. 330000000)\<rparr>"
        and t = "()" and p = "120.0"]
  by (simp add: sl_defs)

section \<open>The hazards that never clear\<close>

text \<open>
  Claim C1. The claim is that each of the four hazards leaves the active set on the first
  reading that no longer satisfies its condition. \<open>check_safety\<close> has a clearing branch for
  \<open>PRESSURE_LEAK\<close> and for \<open>RADIATION_SPIKE\<close>, and none for the two critical hazards:
  whatever the reading, \<open>PRESSURE_CRITICAL\<close> and \<open>RADIATION_CRITICAL\<close> are active after the
  call if they were active before it. On a fresh safety layer, a reading of \<open>85.0\<close> kPa
  followed by \<open>101.325\<close> kPa leaves \<open>PRESSURE_CRITICAL\<close> active; a reading of \<open>0.6\<close>
  mSv/hr followed by \<open>0.02\<close> leaves \<open>RADIATION_CRITICAL\<close> active; and a second drop to
  \<open>85.0\<close> kPa after the recovery raises no alert. The runs are evaluated in the exact
  arithmetic \<open>fp_exact\<close>.
\<close>

theorem C1_critical_hazards_stay_active:
  "(\<exists>out s' e'. check_safety fp state t (s, e) = Inr (out, s', e') \<and>
      (ALERT_PRESSURE_CRITICAL \<in> dom (active_alerts s) \<longrightarrow>
         ALERT_PRESSURE_CRITICAL \<in> dom (active_alerts s')) \<and>
      (ALERT_RADIATION_CRITICAL \<in> dom (active_alerts s) \<longrightarrow>
         ALERT_RADIATION_CRITICAL \<in> dom (active_alerts s')))
   \<and> run_active (safety_run fp_exact
         [SettlementState_init\<lparr>pressure_kpa := 85.0\<rparr>, SettlementState_init]
         (SafetyLayer_init, env0)) = {ALERT_PRESSURE_CRITICAL}
   \<and> run_active (safety_run fp_exact
         [SettlementState_init\<lparr>radiation_msv_hr := 0.6\<rparr>, SettlementState_init]
         (SafetyLayer_init, env0)) = {ALERT_RADIATION_CRITICAL}
   \<and> map (length \<circ> fst) (run_outputs (safety_run fp_exact
         [SettlementState_init\<lparr>pressure_kpa := 85.0\<rparr>, SettlementState_init,
          SettlementState_init\<lparr>pressure_kpa := 85.0\<rparr>]
         (SafetyLayer_init, env0))) = [1, 0, 0]"
proof (intro conjI)
  from check_safety_active[of fp state t s e] obtain out s' e' where
    c: "check_safety fp state t (s, e) = Inr (out, s', e')"
    and p: "ALERT_PRESSURE_CRITICAL \<in> dom (active_alerts s') \<longleftrightarrow>
        pressure_kpa state < 90 \<or> ALERT_PRESSURE_CRITICAL \<in> dom (active_alerts s)"
    and r: "ALERT_RADIATION_CRITICAL \<in> dom (active_alerts s') \<longleftrightarrow>
        radiation_msv_hr state \<ge> 0.5 \<or> ALERT_RADIATION_CRITICAL \<in> dom (active_alerts s)"
    by blast
  show "\<exists>out s' e'. check_safety fp state t (s, e) = Inr (out, s', e') \<and>
      (ALERT_PRESSURE_CRITICAL \<in> dom (active_alerts s) \<longrightarrow>
         ALERT_PRESSURE_CRITICAL \<in> dom (active_alerts s')) \<and>
      (ALERT_RADIATION_CRITICAL \<in> dom (active_alerts s) \<longrightarrow>
         ALERT_RADIATION_CRITICAL \<in> dom (active_alerts s'))"
    by (rule exI[of _ out], rule exI[of _ s'], rule exI[of _ e']) (use c p r in simp)
next
  show "run_active (safety_run fp_exact
         [SettlementState_init\<lparr>pressure_kpa := 85.0\<rparr>, SettlementState_init]
         (SafetyLayer_init, env0)) = {ALERT_PRESSURE_CRITICAL}"
    by (simp add: sl_defs)
next
  show "run_active (safety_run fp_exact
         [SettlementState_init\<lparr>radiation_msv_hr := 0.6\<rparr>, SettlementState_init]
         (SafetyLayer_init, env0)) = {ALERT_RADIATION_CRITICAL}"
    by (simp add: sl_defs)
next
  show "map (length \<circ> fst) (run_outputs (safety_run fp_exact
         [SettlementState_init\<lparr>pressure_kpa := 85.0\<rparr>, SettlementState_init,
          SettlementState_init\<lparr>pressure_kpa := 85.0\<rparr>]
         (SafetyLayer_init, env0))) = [1, 0, 0]"
    by (simp add: sl_defs)
qed

theorem C1_critical_hazards_stay_active_witness:
  "ALERT_PRESSURE_CRITICAL \<in> dom (active_alerts
     (fst (snd (projr (check_safety fp_exact (SettlementState_init\<lparr>pressure_kpa := 85.0\<rparr>) ()
        (SafetyLayer_init, env0)))))) \<and>
   \<not> pressure_kpa SettlementState_init < 90 \<and>
   ALERT_PRESSURE_CRITICAL \<in> dom (active_alerts (fst (snd (projr (check_safety fp_exact SettlementState_init ()
     ((fst (snd (projr (check_safety fp_exact (SettlementState_init\<lparr>pressure_kpa := 85.0\<rparr>) ()
        (SafetyLayer_init, env0))))),
      (snd (snd (projr (check_safety fp_exact (SettlementState_init\<lparr>pressure_kpa := 85.0\<rparr>) ()
        (SafetyLayer_init, env0)))))))))))"
  using C1_critical_hazards_stay_active
     [where fp = fp_exact and state = SettlementState_init and t = "()"
        and s = "(fst (snd (projr (check_safety fp_exact (SettlementState_init\<lparr>pressure_kpa := 85.0\<rparr>) ()
        (SafetyLayer_init, env0)))))"
        and e = "(snd (snd (projr (check_safety fp_exact (SettlementState_init\<lparr>pressure_kpa := 85.0\<rparr>) ()
        (SafetyLayer_init, env0)))))"]
  by (simp add: sl_defs)

section \<open>Radiation spike and critical radiation\<close>

lemma rh_add_reading_baseline:
  "baseline (fst (rh_add_reading fp r (h, e))) =
     (if length (rh_readings (fst (rh_add_reading fp r (h, e)))) \<ge> 5
      then Some (fdiv0 fp
                   (fsum fp (map snd (last_n 5 (rh_readings (fst (rh_add_reading fp r (h, e)))))))
                   (real (length (last_n 5 (rh_readings (fst (rh_add_reading fp r (h, e))))))))
      else baseline h)"
  by (simp add: rh_add_reading_def utcnow_def Let_def)

lemma safety_run_critical:
  assumes "\<forall>state \<in> set states. radiation_msv_hr state \<ge> 0.5"
    and "ALERT_RADIATION_SPIKE \<in> dom (active_alerts s)"
  shows "\<exists>outs s' e'. safety_run fp states (s, e) = Inr (outs, s', e') \<and>
           ALERT_RADIATION_SPIKE \<in> dom (active_alerts s') \<and>
           (states \<noteq> [] \<or> ALERT_RADIATION_CRITICAL \<in> dom (active_alerts s) \<longrightarrow>
              ALERT_RADIATION_CRITICAL \<in> dom (active_alerts s'))"
  using assms
proof (induction states arbitrary: s e)
  case Nil
  then show ?case by simp
next
  case (Cons st rest)
  from check_safety_active[of fp st "()" s e] obtain out s1 e1 where
    c: "check_safety fp st () (s, e) = Inr (out, s1, e1)"
    and rc: "ALERT_RADIATION_CRITICAL \<in> dom (active_alerts s1) \<longleftrightarrow>
        radiation_msv_hr st \<ge> 0.5 \<or> ALERT_RADIATION_CRITICAL \<in> dom (active_alerts s)"
    and sp: "ALERT_RADIATION_SPIKE \<in> dom (active_alerts s1) \<longleftrightarrow>
        (if radiation_msv_hr st \<ge> 0.5 then ALERT_RADIATION_SPIKE \<in> dom (active_alerts s)
         else is_spike fp (radiation_history s1) (radiation_msv_hr st))"
    by blast
  from Cons.prems have st: "radiation_msv_hr st \<ge> 0.5"
    and rest: "\<forall>state \<in> set rest. radiation_msv_hr state \<ge> 0.5" by simp_all
  from sp st Cons.prems(2) have sp1: "ALERT_RADIATION_SPIKE \<in> dom (active_alerts s1)" by simp
  from rc st have rc1: "ALERT_RADIATION_CRITICAL \<in> dom (active_alerts s1)" by simp
  from Cons.IH[OF rest sp1, of e1] rc1 obtain outs s' e' where
    r: "safety_run fp rest (s1, e1) = Inr (outs, s', e')"
    and a: "ALERT_RADIATION_SPIKE \<in> dom (active_alerts s')"
           "ALERT_RADIATION_CRITICAL \<in> dom (active_alerts s')"
    by blast
  show ?case
    by (rule exI[of _ "out # outs"], rule exI[of _ s'], rule exI[of _ e']) (use c r a in simp)
qed

text \<open>
  Claim C2. The claim is that \<open>RADIATION_SPIKE\<close> is active iff the current reading exceeds
  \<open>baseline + 0.1\<close> and \<open>RADIATION_CRITICAL\<close> is not active, and that the two are never
  active together. In \<open>_check_radiation\<close> the branch that clears the spike is the last
  \<open>elif\<close> of a chain whose first test is the critical one, so on a reading \<open>\<ge> 0.5\<close> the
  spike is neither raised nor cleared. For every floating-point arithmetic: after
  \<open>check_safety\<close> the baseline is the mean of the five most recent readings kept once five
  exist; on a reading \<open>< 0.5\<close> the spike is active iff \<open>is_spike\<close> holds of that reading; on
  a reading \<open>\<ge> 0.5\<close> \<open>RADIATION_CRITICAL\<close> is active and the spike is active iff it was
  before; and over any non-empty sequence of readings \<open>\<ge> 0.5\<close> a spike that was active
  stays active next to \<open>RADIATION_CRITICAL\<close>. On a fresh safety layer, five readings of
  \<open>0.02\<close>, one of \<open>0.3\<close> and one of \<open>0.6\<close> leave both hazards active; after three more
  readings of \<open>0.6\<close> both are still active although \<open>0.6\<close> is no spike over the baseline
  any more (the five most recent readings are \<open>0.3, 0.6, 0.6, 0.6, 0.6\<close>). The runs
  are evaluated in the exact arithmetic \<open>fp_exact\<close>; no comparison in them is closer than
  \<open>0.04\<close> to its threshold.
\<close>

theorem C2_spike_stays_active_on_critical:
  "(\<exists>out s' e'. check_safety fp state t (s, e) = Inr (out, s', e') \<and>
      baseline (radiation_history s') =
        (if length (rh_readings (radiation_history s')) \<ge> 5
         then Some (fdiv0 fp
                      (fsum fp (map snd (last_n 5 (rh_readings (radiation_history s')))))
                      (real (length (last_n 5 (rh_readings (radiation_history s'))))))
         else baseline (radiation_history s)) \<and>
      (radiation_msv_hr state < 0.5 \<longrightarrow>
         (ALERT_RADIATION_SPIKE \<in> dom (active_alerts s') \<longleftrightarrow>
            is_spike fp (radiation_history s') (radiation_msv_hr state))) \<and>
      (radiation_msv_hr state \<ge> 0.5 \<longrightarrow>
         ALERT_RADIATION_CRITICAL \<in> dom (active_alerts s') \<and>
         (ALERT_RADIATION_SPIKE \<in> dom (active_alerts s') \<longleftrightarrow>
            ALERT_RADIATION_SPIKE \<in> dom (active_alerts s))))
   \<and> ((\<forall>st \<in> set states. radiation_msv_hr st \<ge> 0.5) \<and> states \<noteq> [] \<and>
        ALERT_RADIATION_SPIKE \<in> dom (active_alerts s) \<longrightarrow>
        (\<exists>outs s' e'. safety_run fp states (s, e) = Inr (outs, s', e') \<and>
           ALERT_RADIATION_SPIKE \<in> dom (active_alerts s') \<and>
           ALERT_RADIATION_CRITICAL \<in> dom (active_alerts s')))
   \<and> run_active (safety_run fp_exact
        [SettlementState_init, SettlementState_init, SettlementState_init, SettlementState_init,
         SettlementState_init, SettlementState_init\<lparr>radiation_msv_hr := 0.3\<rparr>,
         SettlementState_init\<lparr>radiation_msv_hr := 0.6\<rparr>]
        (SafetyLayer_init, env0)) = {ALERT_RADIATION_CRITICAL, ALERT_RADIATION_SPIKE}
   \<and> run_active (safety_run fp_exact
        [SettlementState_init, SettlementState_init, SettlementState_init, SettlementState_init,
         SettlementState_init, SettlementState_init\<lparr>radiation_msv_hr := 0.3\<rparr>,
         SettlementState_init\<lparr>radiation_msv_hr := 0.6\<rparr>,
         SettlementState_init\<lparr>radiation_msv_hr := 0.6\<rparr>,
         SettlementState_init\<lparr>radiation_msv_hr := 0.6\<rparr>,
         SettlementState_init\<lparr>radiation_msv_hr := 0.6\<rparr>]
        (SafetyLayer_init, env0)) = {ALERT_RADIATION_CRITICAL, ALERT_RADIATION_SPIKE}
   \<and> map_option (\<lambda>s. is_spike fp_exact (radiation_history s) 0.6)
        (run_final (safety_run fp_exact
          [SettlementState_init, SettlementState_init, SettlementState_init, SettlementState_init,
           SettlementState_init, SettlementState_init\<lparr>radiation_msv_hr := 0.3\<rparr>,
           SettlementState_init\<lparr>radiation_msv_hr := 0.6\<rparr>,
           SettlementState_init\<lparr>radiation_msv_hr := 0.6\<rparr>,
           SettlementState_init\<lparr>radiation_msv_hr := 0.6\<rparr>,
           SettlementState_init\<lparr>radiation_msv_hr := 0.6\<rparr>]
          (SafetyLayer_init, env0))) = Some False"
proof (intro conjI impI)
  from check_safety_active[of fp state t s e] obtain out s' e' where
    c: "check_safety fp state t (s, e) = Inr (out, s', e')"
    and h: "radiation_history s' =
       fst (rh_add_reading fp (radiation_msv_hr state)
              (radiation_history s, snd (ph_add_reading (pressure_kpa state) (pressure_history s, e))))"
    and rc: "ALERT_RADIATION_CRITICAL \<in> dom (active_alerts s') \<longleftrightarrow>
        radiation_msv_hr state \<ge> 0.5 \<or> ALERT_RADIATION_CRITICAL \<in> dom (active_alerts s)"
    and sp: "ALERT_RADIATION_SPIKE \<in> dom (active_alerts s') \<longleftrightarrow>
        (if radiation_msv_hr state \<ge> 0.5 then ALERT_RADIATION_SPIKE \<in> dom (active_alerts s)
         else is_spike fp (radiation_history s') (radiation_msv_hr state))"
    by blast
  have b: "baseline (radiation_history s') =
        (if length (rh_readings (radiation_history s')) \<ge> 5
         then Some (fdiv0 fp
                      (fsum fp (map snd (last_n 5 (rh_readings (radiation_history s')))))
                      (real (length (last_n 5 (rh_readings (radiation_history s'))))))
         else baseline (radiation_history s))"
    unfolding h by (rule rh_add_reading_baseline)
  have sp1: "radiation_msv_hr state < 0.5 \<longrightarrow>
         (ALERT_RADIATION_SPIKE \<in> dom (active_alerts s') \<longleftrightarrow>
            is_spike fp (radiation_history s') (radiation_msv_hr state))"
    using sp by simp
  have sp2: "radiation_msv_hr state \<ge> 0.5 \<longrightarrow>
         ALERT_RADIATION_CRITICAL \<in> dom (active_alerts s') \<and>
         (ALERT_RADIATION_SPIKE \<in> dom (active_alerts s') \<longleftrightarrow>
            ALERT_RADIATION_SPIKE \<in> dom (active_alerts s))"
    using sp rc by simp
  show "\<exists>out s' e'. check_safety fp state t (s, e) = Inr (out, s', e') \<and>
      baseline (radiation_history s') =
        (if length (rh_readings (radiation_history s')) \<ge> 5
         then Some (fdiv0 fp
                      (fsum fp (map snd (last_n 5 (rh_readings (radiation_history s')))))
                      (real (length (last_n 5 (rh_readings (radiation_history s'))))))
         else baseline (radiation_history s)) \<and>
      (radiation_msv_hr state < 0.5 \<longrightarrow>
         (ALERT_RADIATION_SPIKE \<in> dom (active_alerts s') \<longleftrightarrow>
            is_spike fp (radiation_history s') (radiation_msv_hr state))) \<and>
      (radiation_msv_hr state \<ge> 0.5 \<longrightarrow>
         ALERT_RADIATION_CRITICAL \<in> dom (active_alerts s') \<and>
         (ALERT_RADIATION_SPIKE \<in> dom (active_alerts s') \<longleftrightarrow>
            ALERT_RADIATION_SPIKE \<in> dom (active_alerts s)))"
    apply (rule exI[of _ out], rule exI[of _ s'], rule exI[of _ e'])
    apply (intro conjI)
       apply (rule c)
      apply (rule b)
     apply (rule sp1)
    apply (rule sp2)
    done
next
  assume a: "(\<forall>st \<in> set states. radiation_msv_hr st \<ge> 0.5) \<and> states \<noteq> [] \<and>
        ALERT_RADIATION_SPIKE \<in> dom (active_alerts s)"
  then have 1: "\<forall>st \<in> set states. radiation_msv_hr st \<ge> 0.5"
    and 2: "states \<noteq> []" and 3: "ALERT_RADIATION_SPIKE \<in> dom (active_alerts s)" by simp_all
  from safety_run_critical[OF 1 3, of fp e] 2
  show "\<exists>outs s' e'. safety_run fp states (s, e) = Inr (outs, s', e') \<and>
           ALERT_RADIATION_SPIKE \<in> dom (active_alerts s') \<and>
           ALERT_RADIATION_CRITICAL \<in> dom (active_alerts s')"
    by blast
next
  show "run_active (safety_run fp_exact
        [SettlementState_init, SettlementState_init, SettlementState_init, SettlementState_init,
         SettlementState_init, SettlementState_init\<lparr>radiation_msv_hr := 0.3\<rparr>,
         SettlementState_init\<lparr>radiation_msv_hr := 0.6\<rparr>]
        (SafetyLayer_init, env0)) = {ALERT_RADIATION_CRITICAL, ALERT_RADIATION_SPIKE}"
    by (simp add: sl_defs insert_commute)
next
  show "run_active (safety_run fp_exact
        [SettlementState_init, SettlementState_init, SettlementState_init, SettlementState_init,
         SettlementState_init, SettlementState_init\<lparr>radiation_msv_hr := 0.3\<rparr>,
         SettlementState_init\<lparr>radiation_msv_hr := 0.6\<rparr>,
         SettlementState_init\<lparr>radiation_msv_hr := 0.6\<rparr>,
         SettlementState_init\<lparr>radiation_msv_hr := 0.6\<rparr>,
         SettlementState_init\<lparr>radiation_msv_hr := 0.6\<rparr>]
        (SafetyLayer_init, env0)) = {ALERT_RADIATION_CRITICAL, ALERT_RADIATION_SPIKE}"
    by (simp add: sl_defs insert_commute)
next
  show "map_option (\<lambda>s. is_spike fp_exact (radiation_history s) 0.6)
        (run_final (safety_run fp_exact
          [SettlementState_init, SettlementState_init, SettlementState_init, SettlementState_init,
           SettlementState_init, SettlementState_init\<lparr>radiation_msv_hr := 0.3\<rparr>,
           SettlementState_init\<lparr>radiation_msv_hr := 0.6\<rparr>,
           SettlementState_init\<lparr>radiation_msv_hr := 0.6\<rparr>,
           SettlementState_init\<lparr>radiation_msv_hr := 0.6\<rparr>,
           SettlementState_init\<lparr>radiation_msv_hr := 0.6\<rparr>]
          (SafetyLayer_init, env0))) = Some False"
    by (simp add: sl_defs)
qed

theorem C2_spike_stays_active_on_critical_witness:
  "radiation_msv_hr (SettlementState_init\<lparr>radiation_msv_hr := 0.6\<rparr>) \<ge> 0.5 \<and>
   ALERT_RADIATION_SPIKE \<in> dom (active_alerts (the (run_final (safety_run fp_exact
        [SettlementState_init, SettlementState_init, SettlementState_init, SettlementState_init,
         SettlementState_init, SettlementState_init\<lparr>radiation_msv_hr := 0.3\<rparr>]
        (SafetyLayer_init, env0))))) \<and>
   ALERT_RADIATION_CRITICAL \<notin> dom (active_alerts (the (run_final (safety_run fp_exact
        [SettlementState_init, SettlementState_init, SettlementState_init, SettlementState_init,
         SettlementState_init, SettlementState_init\<lparr>radiation_msv_hr := 0.3\<rparr>]
        (SafetyLayer_init, env0))))) \<and>
   run_active (safety_run fp_exact
        [SettlementState_init\<lparr>radiation_msv_hr := 0.6\<rparr>,
         SettlementState_init\<lparr>radiation_msv_hr := 0.6\<rparr>]
        (the (run_final (safety_run fp_exact
           [SettlementState_init, SettlementState_init, SettlementState_init,
            SettlementState_init, SettlementState_init,
            SettlementState_init\<lparr>radiation_msv_hr := 0.3\<rparr>]
           (SafetyLayer_init, env0))), env0))
     = {ALERT_RADIATION_CRITICAL, ALERT_RADIATION_SPIKE}"
  using C2_spike_stays_active_on_critical
     [where fp = fp_exact and state = "SettlementState_init\<lparr>radiation_msv_hr := 0.6\<rparr>"
        and t = "()" and e = env0
        and states = "[SettlementState_init\<lparr>radiation_msv_hr := 0.6\<rparr>,
                       SettlementState_init\<lparr>radiation_msv_hr := 0.6\<rparr>]"
        and s = "the (run_final (safety_run fp_exact
           [SettlementState_init, SettlementState_init, SettlementState_init,
            SettlementState_init, SettlementState_init,
            SettlementState_init\<lparr>radiation_msv_hr := 0.3\<rparr>]
           (SafetyLayer_init, env0)))"]
  by (simp add: sl_defs insert_commute)

section \<open>Priorities of recommendations\<close>

lemma prio_ok_mk_rec [simp]:
  "prio_ok (mk_rec rid (calculate_priority d k c) cat act cur thr imp conf)"
  by (simp add: prio_ok_def mk_rec_def calculate_priority_range)

lemma analyze_oxygen_prio_ok: "analyze_oxygen state rid = Some r \<Longrightarrow> prio_ok r"
  by (auto simp: analyze_oxygen_def Let_def split: if_splits)

lemma analyze_co2_prio_ok: "analyze_co2 state rid = Some r \<Longrightarrow> prio_ok r"
  by (auto simp: analyze_co2_def Let_def split: if_splits)

lemma analyze_pressure_prio_ok: "analyze_pressure state rid = Some r \<Longrightarrow> prio_ok r"
  by (auto simp: analyze_pressure_def Let_def split: if_splits)

lemma analyze_temperature_prio_ok: "analyze_temperature state rid = Some r \<Longrightarrow> prio_ok r"
  by (auto simp: analyze_temperature_def Let_def split: if_splits)

lemma analyze_humidity_prio_ok: "analyze_humidity state rid = Some r \<Longrightarrow> prio_ok r"
  by (auto simp: analyze_humidity_def Let_def split: if_splits)

lemma analyze_crop_health_prio_ok: "analyze_crop_health state rid = Some r \<Longrightarrow> prio_ok r"
  by (auto simp: analyze_crop_health_def Let_def split: if_splits)

lemma analyze_battery_prio_ok: "analyze_battery state rid = Some r \<Longrightarrow> prio_ok r"
  by (auto simp: analyze_battery_def Let_def split: if_splits)

lemma analyze_solar_prio_ok: "analyze_solar state rid = Some r \<Longrightarrow> prio_ok r"
  by (auto simp: analyze_solar_def Let_def split: if_splits)

lemma analyze_load_prio_ok: "analyze_load state rid = Some r \<Longrightarrow> prio_ok r"
  by (auto simp: analyze_load_def Let_def split: if_splits)

lemma analyze_energy_balance_prio_ok: "analyze_energy_balance state rid = Some r \<Longrightarrow> prio_ok r"
  by (auto simp: analyze_energy_balance_def Let_def split: if_splits)

lemmas analyzers_prio_ok =
  analyze_oxygen_prio_ok analyze_co2_prio_ok analyze_pressure_prio_ok
  analyze_temperature_prio_ok analyze_humidity_prio_ok analyze_crop_health_prio_ok
  analyze_battery_prio_ok analyze_solar_prio_ok analyze_load_prio_ok
  analyze_energy_balance_prio_ok

lemma run_analyzer_prio_ok:
  assumes "\<And>rid r. f rid = Some r \<Longrightarrow> prio_ok r" and "\<forall>r \<in> set (fst acc). prio_ok r"
  shows "\<forall>r \<in> set (fst (run_analyzer f acc)). prio_ok r"
  using assms by (cases acc) (auto simp: run_analyzer_def split: option.splits)

lemma analyze_life_support_prio_ok: "\<forall>r \<in> set (fst (analyze_life_support state e)). prio_ok r"
  unfolding analyze_life_support_def
  by (intro run_analyzer_prio_ok; (erule analyzers_prio_ok)?) simp

lemma analyze_energy_dispatch_prio_ok: "\<forall>r \<in> set (fst (analyze_energy_dispatch state e)). prio_ok r"
  unfolding analyze_energy_dispatch_def
  by (intro run_analyzer_prio_ok; (erule analyzers_prio_ok)?) simp

lemma generate_recommendations_prio_ok:
  "\<forall>r \<in> set (fst (generate_recommendations state e)). prio_ok r"
proof -
  obtain ls e1 where l: "analyze_life_support state e = (ls, e1)" by (metis surj_pair)
  obtain en e2 where n: "analyze_energy_dispatch state e1 = (en, e2)" by (metis surj_pair)
  from analyze_life_support_prio_ok[of state e] l have "\<forall>r \<in> set ls. prio_ok r" by simp
  moreover from analyze_energy_dispatch_prio_ok[of state e1] n have "\<forall>r \<in> set en. prio_ok r" by simp
  ultimately show ?thesis using l n
    by (auto simp: generate_recommendations_def Let_def)
qed

lemma create_critical_recommendation_priority:
  "mr_priority (fst (create_critical_recommendation a c ti d ra (s, e))) = ''high''"
  by (simp add: create_critical_recommendation_def Let_def split: prod.splits)

text \<open>
  Claim C3, as stated, fails on the safety layer: the priority of the recommendation built
  by \<open>_create_critical_recommendation\<close> is the string \<open>"high"\<close>, not an integer in
  \<open>[1,10]\<close>.
\<close>

theorem C3_counterexample:
  "\<not> is_int_in 1 10
      (PyStr (mr_priority (fst (create_critical_recommendation ''IMMEDIATE_EVACUATION'' ''pressure''
         ''Immediate Evacuation Required''
         (Fmt ''Pressure has dropped to critical level ({:.2f} kPa). Immediate evacuation to emergency shelters required.'' [85.0])
         True (SafetyLayer_init, env0)))))"
  by (simp add: is_int_in_def)

text \<open>
  Claim C3, amended. Every recommendation returned by \<open>generate_recommendations\<close> has an
  integer priority in \<open>[1,10]\<close>, as has every value of \<open>calculate_priority\<close>; every
  recommendation built by \<open>_create_critical_recommendation\<close>, and so every recommendation
  returned by \<open>check_safety\<close>, has the priority \<open>"high"\<close>.
\<close>

theorem C3_priority_amended:
  "(\<forall>r \<in> set (fst (generate_recommendations state e)).
       is_int_in 1 10 (PyInt (priority r)))
   \<and> 1 \<le> calculate_priority d k c \<and> calculate_priority d k c \<le> 10
   \<and> mr_priority (fst (create_critical_recommendation a cat ti de ra (s, e))) = ''high''
   \<and> (\<exists>out s' e'. check_safety fp state t (s, e) = Inr (out, s', e') \<and>
         (\<forall>r \<in> set (snd out). mr_priority r = ''high''))"
proof (intro conjI)
  show "\<forall>r \<in> set (fst (generate_recommendations state e)). is_int_in 1 10 (PyInt (priority r))"
    using generate_recommendations_prio_ok[of state e] by (simp add: is_int_in_def prio_ok_def)
  show "1 \<le> calculate_priority d k c" "calculate_priority d k c \<le> 10"
    by (simp_all add: calculate_priority_range)
  show "mr_priority (fst (create_critical_recommendation a cat ti de ra (s, e))) = ''high''"
    by (rule create_critical_recommendation_priority)
  from check_safety_active[of fp state t s e]
  show "\<exists>out s' e'. check_safety fp state t (s, e) = Inr (out, s', e') \<and>
         (\<forall>r \<in> set (snd out). mr_priority r = ''high'')"
    by blast
qed

lemmas de_defs = generate_recommendations_def analyze_life_support_def analyze_energy_dispatch_def
  run_analyzer_def analyze_oxygen_def analyze_co2_def analyze_pressure_def
  analyze_temperature_def analyze_humidity_def analyze_crop_health_def analyze_battery_def
  analyze_solar_def analyze_load_def analyze_energy_balance_def mk_rec_def
  calculate_priority_def impact_multiplier_def threshold_defs

theorem C3_priority_amended_witness:
  "map priority (fst (generate_recommendations
      (SettlementState_init\<lparr>o2_pct := 19.0, battery_kwh := 95.0\<rparr>) env0)) = [10, 8, 2] \<and>
   map mr_priority (snd (fst (projr (check_safety fp_exact (SettlementState_init\<lparr>pressure_kpa := 85.0\<rparr>) ()
      (SafetyLayer_init, env0))))) = [''high'']"
  using C3_priority_amended
     [where state = "SettlementState_init\<lparr>o2_pct := 19.0, battery_kwh := 95.0\<rparr>"
        and e = env0 and d = 1 and k = "''high''" and c = False
        and a = "''a''" and cat = "''c''" and ti = "''t''" and de = "Fmt ''d'' []" and ra = True
        and s = SafetyLayer_init and fp = fp_exact and t = "()"]
  by (simp add: sl_defs de_defs)

end
